theory Spec2Isabelle
  imports Main "HOL-Library.AList"
begin

section \<open>The mail queue of firestore-send-email (functions/src/index.ts)\<close>

text \<open>
  A shallow embedding of \<^verbatim>\<open>index.ts\<close>: the queue document and its delivery block,
  the payload preparation, the delivery executor, the state machine
  \<^verbatim>\<open>processWrite\<close> and the trigger handler \<^verbatim>\<open>processQueue\<close>.

  Conventions of the embedding.
  \<^item> Untyped document data is a \<open>jsval\<close>; the run-time tests of the source
    (\<^verbatim>\<open>typeof x === "string"\<close>, \<^verbatim>\<open>Array.isArray\<close>, truthiness, \<^verbatim>\<open>||\<close>) are functions on it.
    Numbers are integers (no NaN, no fractions).
  \<^item> A thrown exception is the left injection of a sum; an \<^verbatim>\<open>async\<close> function that also
    has effects returns its outcome paired with the new world.
  \<^item> The world is the content of the queue document in the store together with the
    ordered trace of the effects of the invocation: events recorded, transactional
    updates committed, messages handed to the transport.
  \<^item> The external collaborators (template renderer, user directory, mail transport,
    configuration, the two clocks) are the fields of an environment record. Logging
    (\<^verbatim>\<open>logs.*\<close>) has no effect on the document, the events or the transport and is left out.
  \<^item> \<^verbatim>\<open>runTransaction\<close> is the store's atomic partial update of the one document; it is
    taken to succeed.
\<close>

subsection \<open>JavaScript values\<close>

datatype jsval =
    JUndefined
  | JNull
  | JBool bool
  | JNum int
  | JStr string
  | JArr "jsval list"
  | JObj "(string \<times> jsval) list"

type_synonym obj = "(string \<times> jsval) list"

text \<open>ToBoolean: the falsy values are undefined, null, false, 0 and the empty string.\<close>

fun truthy :: "jsval \<Rightarrow> bool" where
  "truthy JUndefined = False"
| "truthy JNull = False"
| "truthy (JBool b) = b"
| "truthy (JNum n) = (n \<noteq> 0)"
| "truthy (JStr s) = (s \<noteq> [])"
| "truthy (JArr xs) = True"
| "truthy (JObj kvs) = True"

text \<open>\<^verbatim>\<open>a || b\<close>\<close>

definition js_or :: "jsval \<Rightarrow> jsval \<Rightarrow> jsval" where
  "js_or a b = (if truthy a then a else b)"

text \<open>\<^verbatim>\<open>typeof x === "string"\<close>\<close>

fun is_string :: "jsval \<Rightarrow> bool" where
  "is_string (JStr s) = True"
| "is_string v = False"

text \<open>\<^verbatim>\<open>xs.length\<close> of an array; the source reads it only from arrays.\<close>

fun js_length :: "jsval \<Rightarrow> nat" where
  "js_length (JArr xs) = length xs"
| "js_length v = 0"

text \<open>Property read \<^verbatim>\<open>o.k\<close> on an object: undefined when the key is absent.\<close>

definition obj_get :: "obj \<Rightarrow> string \<Rightarrow> jsval" where
  "obj_get kvs k = (case map_of kvs k of Some v \<Rightarrow> v | None \<Rightarrow> JUndefined)"

text \<open>
  \<^verbatim>\<open>Object.assign(target, s1, ..., sn)\<close> on objects: the properties of each source are
  written into the target in turn, a later write replacing an earlier one.
\<close>

definition assign1 :: "obj \<Rightarrow> obj \<Rightarrow> obj" where
  "assign1 target source = foldl (\<lambda>t (k, v). AList.update k v t) target source"

definition Object_assign :: "obj \<Rightarrow> obj list \<Rightarrow> obj" where
  "Object_assign target sources = foldl assign1 target sources"

text \<open>Decimal notation of a number, for its use as a property key.\<close>

fun show_nat :: "nat \<Rightarrow> string" where
  "show_nat n =
     (if n < 10 then [char_of (48 + n)]
      else show_nat (n div 10) @ [char_of (48 + n mod 10)])"

definition show_int :: "int \<Rightarrow> string" where
  "show_int i = (if i < 0 then CHR ''-'' # show_nat (nat (- i)) else show_nat (nat i))"

fun join_comma :: "string list \<Rightarrow> string" where
  "join_comma [] = []"
| "join_comma [s] = s"
| "join_comma (s # t # ss) = s @ '','' @ join_comma (t # ss)"

text \<open>
  ToString, as applied to a value used as a property key (\<^verbatim>\<open>toFetch[uid]\<close>). An array
  joins its elements with commas, null and undefined elements giving the empty string.
\<close>

fun ToString :: "jsval \<Rightarrow> string" where
  "ToString JUndefined = ''undefined''"
| "ToString JNull = ''null''"
| "ToString (JBool b) = (if b then ''true'' else ''false'')"
| "ToString (JNum n) = show_int n"
| "ToString (JStr s) = s"
| "ToString (JArr xs) =
     join_comma (map (\<lambda>x. if x = JUndefined \<or> x = JNull then [] else ToString x) xs)"
| "ToString (JObj kvs) = ''[object Object]''"

subsection \<open>Errors\<close>

text \<open>
  A thrown value is an error object with a name and a message. \<^verbatim>\<open>new Error(m)\<close> has the
  name \<^verbatim>\<open>Error\<close>; the engine's own failures are \<^verbatim>\<open>TypeError\<close>s.
\<close>

datatype js_error = JsError (err_name: string) (err_message: string)

abbreviation Error :: "string \<Rightarrow> js_error" where
  "Error m \<equiv> JsError ''Error'' m"

abbreviation TypeError :: "string \<Rightarrow> js_error" where
  "TypeError m \<equiv> JsError ''TypeError'' m"

text \<open>\<^verbatim>\<open>e.toString()\<close> (Error.prototype.toString)\<close>

definition err_toString :: "js_error \<Rightarrow> string" where
  "err_toString e =
     (if err_name e = [] then err_message e
      else if err_message e = [] then err_name e
      else err_name e @ '': '' @ err_message e)"

text \<open>Sequencing of steps that may throw: the first exception ends the sequence.\<close>

definition and_then :: "js_error + 'a \<Rightarrow> ('a \<Rightarrow> js_error + 'b) \<Rightarrow> js_error + 'b" where
  "and_then m f = (case m of Inl err \<Rightarrow> Inl err | Inr v \<Rightarrow> f v)"

subsection \<open>The queue document\<close>

text \<open>
  The delivery block of a queue document. A field that is absent reads as undefined
  (\<open>JUndefined\<close>, or \<open>None\<close> for a timestamp); the timestamps are in milliseconds,
  as \<^verbatim>\<open>toMillis()\<close> reads them.
\<close>

record Delivery =
  state :: jsval
  startTime :: "int option"
  endTime :: "int option"
  attempts :: jsval
  error :: jsval
  info :: jsval
  leaseExpireTime :: "int option"

text \<open>
  \<^verbatim>\<open>QueuePayload\<close> (declared in \<^verbatim>\<open>./types\<close>): the content of a queue document. The
  recipient fields are kept untyped, since the source checks their shape at run time;
  \<open>template\<close> and \<open>message\<close> are objects or absent. \<open>top_error\<close> is the top-level
  field \<^verbatim>\<open>error\<close> that the lease-expiry update writes beside \<^verbatim>\<open>delivery.error\<close>.
\<close>

record QueuePayload =
  template :: "obj option"
  message :: "obj option"
  to :: jsval
  cc :: jsval
  bcc :: jsval
  toUids :: jsval
  ccUids :: jsval
  bccUids :: jsval
  from_addr :: jsval
  replyTo :: jsval
  headers :: jsval
  delivery :: "Delivery option"
  top_error :: jsval

text \<open>The delivery block of a document that has none yet: every field absent.\<close>

definition no_delivery :: Delivery where
  "no_delivery =
     \<lparr>state = JUndefined, startTime = None, endTime = None, attempts = JUndefined,
      error = JUndefined, info = JUndefined, leaseExpireTime = None\<rparr>"

subsection \<open>Transactional updates\<close>

text \<open>
  One entry of the object given to \<^verbatim>\<open>transaction.update\<close>: a field path and the value
  written there. \<open>Delivery_map\<close> replaces the whole \<^verbatim>\<open>delivery\<close> map; the dotted paths
  replace one nested field and leave the others; \<open>Delivery_attempts_increment\<close> is
  \<^verbatim>\<open>FieldValue.increment\<close>.
\<close>

datatype field_update =
    Delivery_map Delivery
  | Delivery_state jsval
  | Delivery_error jsval
  | Delivery_info jsval
  | Delivery_endTime "int option"
  | Delivery_leaseExpireTime "int option"
  | Delivery_attempts_increment int
  | Top_error jsval

fun path_of :: "field_update \<Rightarrow> string" where
  "path_of (Delivery_map d) = ''delivery''"
| "path_of (Delivery_state v) = ''delivery.state''"
| "path_of (Delivery_error v) = ''delivery.error''"
| "path_of (Delivery_info v) = ''delivery.info''"
| "path_of (Delivery_endTime t) = ''delivery.endTime''"
| "path_of (Delivery_leaseExpireTime t) = ''delivery.leaseExpireTime''"
| "path_of (Delivery_attempts_increment n) = ''delivery.attempts''"
| "path_of (Top_error v) = ''error''"

text \<open>\<^verbatim>\<open>update[path] = value\<close> on the update object: an entry of the same path is replaced.\<close>

fun set_update :: "field_update \<Rightarrow> field_update list \<Rightarrow> field_update list" where
  "set_update u [] = [u]"
| "set_update u (x # xs) = (if path_of x = path_of u then u # xs else x # set_update u xs)"

text \<open>\<^verbatim>\<open>FieldValue.increment(n)\<close>: a field that holds no number counts as 0.\<close>

fun increment :: "int \<Rightarrow> jsval \<Rightarrow> jsval" where
  "increment n (JNum k) = JNum (k + n)"
| "increment n v = JNum n"

definition the_delivery :: "QueuePayload \<Rightarrow> Delivery" where
  "the_delivery doc = (case delivery doc of Some d \<Rightarrow> d | None \<Rightarrow> no_delivery)"

fun apply_field :: "field_update \<Rightarrow> QueuePayload \<Rightarrow> QueuePayload" where
  "apply_field (Delivery_map d) doc = doc\<lparr>delivery := Some d\<rparr>"
| "apply_field (Delivery_state v) doc = doc\<lparr>delivery := Some ((the_delivery doc)\<lparr>state := v\<rparr>)\<rparr>"
| "apply_field (Delivery_error v) doc = doc\<lparr>delivery := Some ((the_delivery doc)\<lparr>error := v\<rparr>)\<rparr>"
| "apply_field (Delivery_info v) doc = doc\<lparr>delivery := Some ((the_delivery doc)\<lparr>info := v\<rparr>)\<rparr>"
| "apply_field (Delivery_endTime t) doc = doc\<lparr>delivery := Some ((the_delivery doc)\<lparr>endTime := t\<rparr>)\<rparr>"
| "apply_field (Delivery_leaseExpireTime t) doc =
     doc\<lparr>delivery := Some ((the_delivery doc)\<lparr>leaseExpireTime := t\<rparr>)\<rparr>"
| "apply_field (Delivery_attempts_increment n) doc =
     doc\<lparr>delivery := Some ((the_delivery doc)\<lparr>attempts := increment n (attempts (the_delivery doc))\<rparr>)\<rparr>"
| "apply_field (Top_error v) doc = doc\<lparr>top_error := v\<rparr>"

definition apply_update :: "field_update list \<Rightarrow> QueuePayload \<Rightarrow> QueuePayload" where
  "apply_update upd doc = fold apply_field upd doc"

subsection \<open>Events, effects and the world\<close>

text \<open>
  The events that the hooks of \<^verbatim>\<open>./events\<close> record, the error event with the error
  value it is given, and the effects of an invocation, in the order in which they happen.
\<close>

datatype event =
    StartEvent
  | PendingEvent
  | ProcessingEvent
  | RetryEvent
  | SuccessEvent
  | ErrorEvent jsval
  | CompleteEvent

datatype effect =
    Event event
  | Commit "field_update list"
  | Send obj

record world =
  stored :: QueuePayload
  trace :: "effect list"

text \<open>
  Modelled from the spec: the module \<^verbatim>\<open>./events\<close> (\<^verbatim>\<open>recordStartEvent\<close>,
  \<^verbatim>\<open>recordPendingEvent\<close>, \<^verbatim>\<open>recordProcessingEvent\<close>, \<^verbatim>\<open>recordRetryEvent\<close>,
  \<^verbatim>\<open>recordSuccessEvent\<close>, \<^verbatim>\<open>recordErrorEvent\<close>, \<^verbatim>\<open>recordCompleteEvent\<close>) is not among
  the sources. Its hooks are fire-and-forget observers that never fail: recording an
  event appends it to the trace and does nothing else.
\<close>

definition recordEvent :: "event \<Rightarrow> world \<Rightarrow> world" where
  "recordEvent ev w = w\<lparr>trace := trace w @ [Event ev]\<rparr>"

text \<open>
  \<^verbatim>\<open>admin.firestore().runTransaction(t => { t.update(ref, upd); ... })\<close>: the update is
  applied to the stored document and recorded.
\<close>

definition runTransaction :: "field_update list \<Rightarrow> world \<Rightarrow> world" where
  "runTransaction upd w =
     w\<lparr>stored := apply_update upd (stored w), trace := trace w @ [Commit upd]\<rparr>"

text \<open>
  The environment of an invocation. \<open>templates\<close> is the module variable of that name:
  set when a templates collection is configured, with \<^verbatim>\<open>render(name, data)\<close> as its
  content. \<open>getAll\<close> is \<^verbatim>\<open>db.getAll\<close> on the references
  \<^verbatim>\<open>db.collection(config.usersCollection).doc(uid)\<close> of the given keys, in their order,
  with the field mask \<^verbatim>\<open>email\<close>: it fails (a key that is no document id makes
  \<^verbatim>\<open>doc\<close> throw, the query can be rejected), or answers with document snapshots.
  \<open>now\<close> is \<^verbatim>\<open>Date.now()\<close>, read at most once on every path of an invocation;
  \<open>serverTimestamp\<close> is the time the store stamps on a commit.
\<close>

text \<open>
  What the code reads of a document snapshot of the users collection:
  \<^verbatim>\<open>documentSnapshot.id\<close>, \<^verbatim>\<open>documentSnapshot.exists\<close> and
  \<^verbatim>\<open>documentSnapshot.get("email")\<close>.
\<close>

record snapshot =
  snapshot_id :: string
  snapshot_exists :: bool
  snapshot_email :: jsval

record env =
  templates :: "(jsval \<Rightarrow> jsval \<Rightarrow> js_error + obj) option"
  usersCollection :: jsval
  getAll :: "string list \<Rightarrow> js_error + snapshot list"
  sendMail :: "obj \<Rightarrow> js_error + obj"
  defaultFrom :: jsval
  defaultReplyTo :: jsval
  now :: int
  serverTimestamp :: int

text \<open>A change: the snapshots before and after the write; \<open>None\<close> is a snapshot that does not exist.\<close>

record change =
  before :: "QueuePayload option"
  after :: "QueuePayload option"

subsection \<open>Payload preparation\<close>

definition invalid_field :: "string \<Rightarrow> js_error" where
  "invalid_field field =
     Error (''Invalid field '' @ [CHR 0x22] @ field @ [CHR 0x22] @ ''. Expected an array of strings.'')"

text \<open>
  \<^verbatim>\<open>validateFieldArray\<close>: the value must be an array; \<^verbatim>\<open>array.find\<close> returns its first
  element that is not a string, and the function throws when that element is truthy.
\<close>

definition validateFieldArray :: "string \<Rightarrow> jsval \<Rightarrow> js_error + unit" where
  "validateFieldArray field array =
     (case array of
        JArr xs \<Rightarrow>
          (case find (\<lambda>item. \<not> is_string item) xs of
             Some item \<Rightarrow> if truthy item then Inl (invalid_field field) else Inr ()
           | None \<Rightarrow> Inr ())
      | _ \<Rightarrow> Inl (invalid_field field))"

text \<open>\<^verbatim>\<open>xs.concat(v)\<close>: the elements of an array argument, any other argument itself.\<close>

fun js_concat :: "jsval list \<Rightarrow> jsval \<Rightarrow> jsval list" where
  "js_concat xs (JArr ys) = xs @ ys"
| "js_concat xs v = xs @ [v]"

text \<open>The elements that \<^verbatim>\<open>forEach\<close> visits.\<close>

fun elements :: "jsval \<Rightarrow> jsval list" where
  "elements (JArr xs) = xs"
| "elements v = []"

text \<open>
  Lines 97 to 113: the template merge. It is entered only when the module variable
  \<^verbatim>\<open>templates\<close> is set and the payload has a template.
\<close>

definition mergeTemplate :: "env \<Rightarrow> QueuePayload \<Rightarrow> js_error + QueuePayload" where
  "mergeTemplate e payload =
     (case templates e of
        None \<Rightarrow> Inr payload
      | Some render \<Rightarrow>
          (case template payload of
             None \<Rightarrow> Inr payload
           | Some t \<Rightarrow>
               if \<not> truthy (obj_get t ''name'')
               then Inl (Error ''Template object is missing a 'name' parameter.'')
               else
                 (case render (obj_get t ''name'') (obj_get t ''data'') of
                    Inl err \<Rightarrow> Inl err
                  | Inr templateRender \<Rightarrow>
                      let mergeMessage = (case message payload of Some m \<Rightarrow> m | None \<Rightarrow> []);
                          attachments =
                            (if truthy (obj_get templateRender ''attachments'')
                             then obj_get templateRender ''attachments''
                             else obj_get mergeMessage ''attachments'')
                      in Inr (payload\<lparr>message :=
                                Some (Object_assign mergeMessage
                                  [templateRender,
                                   [(''attachments'', js_or attachments (JArr []))]])\<rparr>))))"

text \<open>
  Lines 119 to 138, for one of \<^verbatim>\<open>to\<close>, \<^verbatim>\<open>cc\<close>, \<^verbatim>\<open>bcc\<close>: a string becomes a one-element
  list, any other truthy value is validated and concatenated to the empty list, a falsy
  value leaves the list empty.
\<close>

definition literalAddresses :: "string \<Rightarrow> jsval \<Rightarrow> js_error + jsval list" where
  "literalAddresses field v =
     (if is_string v then Inr [v]
      else if truthy v then
        (case validateFieldArray field v of
           Inl err \<Rightarrow> Inl err
         | Inr _ \<Rightarrow> Inr (js_concat [] v))
      else Inr [])"

text \<open>Lines 154 to 167, for one of the uid fields: validate and collect the ids.\<close>

definition collectUids :: "string \<Rightarrow> jsval \<Rightarrow> jsval list \<Rightarrow> js_error + jsval list" where
  "collectUids field v uids =
     (if truthy v then
        (case validateFieldArray field v of
           Inl err \<Rightarrow> Inl err
         | Inr _ \<Rightarrow> Inr (js_concat uids v))
      else Inr uids)"

text \<open>
  The object \<^verbatim>\<open>toFetch\<close> is a JavaScript object created by \<^verbatim>\<open>{}\<close> and used as a
  table from keys to emails. Such an object has its own properties, kept here in the
  order of their creation, and a prototype: \<^verbatim>\<open>Object.prototype\<close> at creation, later
  possibly null or a value that an assignment to the key \<^verbatim>\<open>__proto__\<close> has put there.
\<close>

datatype prototype = ObjectPrototype | NullPrototype | ValuePrototype jsval

record jsobject =
  own :: obj
  proto :: prototype

definition emptyObject :: jsobject where
  "emptyObject = \<lparr>own = [], proto = ObjectPrototype\<rparr>"

text \<open>
  The assignment \<^verbatim>\<open>o[k] = v\<close>. A key that is an own property is overwritten. A key that
  is not is created as an own property, with one exception: as long as the object has a
  prototype, the key \<^verbatim>\<open>__proto__\<close> is found there as the accessor of
  \<^verbatim>\<open>Object.prototype\<close>, whose setter replaces the prototype when the value is null, an
  object or an array, does nothing for any other value, and creates no property.
\<close>

definition assignProperty :: "string \<Rightarrow> jsval \<Rightarrow> jsobject \<Rightarrow> jsobject" where
  "assignProperty k v tbl =
     (if k \<in> set (map fst (own tbl)) then tbl\<lparr>own := AList.update k v (own tbl)\<rparr>
      else if k = ''__proto__'' \<and> proto tbl \<noteq> NullPrototype then
        (case v of
           JNull \<Rightarrow> tbl\<lparr>proto := NullPrototype\<rparr>
         | JObj kvs \<Rightarrow> tbl\<lparr>proto := ValuePrototype v\<rparr>
         | JArr xs \<Rightarrow> tbl\<lparr>proto := ValuePrototype v\<rparr>
         | _ \<Rightarrow> tbl)
      else tbl\<lparr>own := AList.update k v (own tbl)\<rparr>)"

text \<open>
  What a key that is not an own property reads through the prototype chain. Without a
  prototype it reads \<^verbatim>\<open>undefined\<close>. With \<^verbatim>\<open>Object.prototype\<close> the names defined there
  read a function or, for \<^verbatim>\<open>__proto__\<close>, the prototype itself: an object, which is all
  that is kept of it here. With a value as prototype, \<^verbatim>\<open>__proto__\<close> reads that value, a
  property of an object value reads its content, and any other key is looked up in
  \<^verbatim>\<open>Object.prototype\<close>; the members that an array value has of its own are not kept.
  Lemmas \<open>toFetch_read\<close> and \<open>readProperty_settled\<close> show that no read of
  \<^verbatim>\<open>preparePayload\<close> reaches a prototype other than null.
\<close>

definition object_prototype_names :: "string list" where
  "object_prototype_names =
     [''constructor'', ''__defineGetter__'', ''__defineSetter__'', ''hasOwnProperty'',
      ''__lookupGetter__'', ''__lookupSetter__'', ''isPrototypeOf'', ''propertyIsEnumerable'',
      ''toString'', ''valueOf'', ''__proto__'', ''toLocaleString'']"

definition from_object_prototype :: "string \<Rightarrow> jsval" where
  "from_object_prototype k = (if k \<in> set object_prototype_names then JObj [] else JUndefined)"

fun inherited :: "prototype \<Rightarrow> string \<Rightarrow> jsval" where
  "inherited NullPrototype k = JUndefined"
| "inherited ObjectPrototype k = from_object_prototype k"
| "inherited (ValuePrototype v) k =
     (if k = ''__proto__'' then v
      else case v of
             JObj kvs \<Rightarrow> (case map_of kvs k of Some x \<Rightarrow> x | None \<Rightarrow> from_object_prototype k)
           | _ \<Rightarrow> from_object_prototype k)"

text \<open>The read \<^verbatim>\<open>o[k]\<close>.\<close>

definition readProperty :: "jsobject \<Rightarrow> string \<Rightarrow> jsval" where
  "readProperty tbl k = (case map_of (own tbl) k of Some v \<Rightarrow> v | None \<Rightarrow> inherited (proto tbl) k)"

text \<open>
  \<^verbatim>\<open>Object.keys\<close>: the own properties, first the keys that are array indices (the
  canonical decimal form of a number below \<open>2\<^sup>3\<^sup>2 - 1\<close>) in ascending order, then the other
  keys in the order of their creation.
\<close>

definition is_digit :: "char \<Rightarrow> bool" where
  "is_digit c = (48 \<le> (of_char c :: int) \<and> (of_char c :: int) \<le> 57)"

definition array_index :: "string \<Rightarrow> int option" where
  "array_index s =
     (if s = [] \<or> \<not> list_all is_digit s \<or> (hd s = CHR ''0'' \<and> s \<noteq> ''0'') then None
      else let n = foldl (\<lambda>a c. 10 * a + (of_char c - 48)) 0 s
           in if n < 4294967295 then Some n else None)"

definition Object_keys :: "jsobject \<Rightarrow> string list" where
  "Object_keys tbl =
     (let ks = map fst (own tbl)
      in sort_key (\<lambda>k. case array_index k of Some n \<Rightarrow> n | None \<Rightarrow> 0)
           (filter (\<lambda>k. array_index k \<noteq> None) ks)
         @ filter (\<lambda>k. array_index k = None) ks)"

text \<open>
  Lines 169 and 170: \<^verbatim>\<open>toFetch\<close> after \<^verbatim>\<open>uids.forEach((uid) => (toFetch[uid] = null))\<close>.
  A uid is converted to a property key by \<^verbatim>\<open>ToString\<close>. The first uid \<^verbatim>\<open>__proto__\<close>
  creates no key and removes the prototype; a second one then creates the key.
\<close>

definition requested :: "jsval list \<Rightarrow> jsobject" where
  "requested uids = foldl (\<lambda>tbl uid. assignProperty (ToString uid) JNull tbl) emptyObject uids"

text \<open>
  Lines 183 to 195, for one snapshot: the email of an existing document, when truthy, is
  stored under the id of the snapshot, which is the last segment of the path of its
  reference. (The ids of the other snapshots go to a list that is only logged.)
\<close>

definition recordSnapshot :: "jsobject \<Rightarrow> snapshot \<Rightarrow> jsobject" where
  "recordSnapshot tbl documentSnapshot =
     (if snapshot_exists documentSnapshot then
        (let email = snapshot_email documentSnapshot
         in if truthy email then assignProperty (snapshot_id documentSnapshot) email tbl else tbl)
      else tbl)"

text \<open>\<^verbatim>\<open>toFetch\<close> once the snapshots have been read.\<close>

definition toFetch :: "jsval list \<Rightarrow> snapshot list \<Rightarrow> jsobject" where
  "toFetch uids documents = foldl recordSnapshot (requested uids) documents"

text \<open>Lines 199 to 206, for one of the uid fields: push the emails found, in the order of the field.\<close>

definition pushEmails :: "jsobject \<Rightarrow> jsval \<Rightarrow> jsval list \<Rightarrow> jsval list" where
  "pushEmails table v acc =
     (if truthy v
      then foldl (\<lambda>acc uid. let email = readProperty table (ToString uid)
                             in if truthy email then acc @ [email] else acc)
             acc (elements v)
      else acc)"

definition preparePayload :: "env \<Rightarrow> QueuePayload \<Rightarrow> js_error + QueuePayload" where
  "preparePayload e payload0 =
     and_then (mergeTemplate e payload0) (\<lambda>payload.
     and_then (literalAddresses ''to'' (to payload)) (\<lambda>to1.
     and_then (literalAddresses ''cc'' (cc payload)) (\<lambda>cc1.
     and_then (literalAddresses ''bcc'' (bcc payload)) (\<lambda>bcc1.
       if \<not> truthy (toUids payload) \<and> \<not> truthy (ccUids payload) \<and> \<not> truthy (bccUids payload)
       then Inr (payload\<lparr>to := JArr to1, cc := JArr cc1, bcc := JArr bcc1\<rparr>)
       else if \<not> truthy (usersCollection e)
       then Inl (Error ''Must specify a users collection to send using uids.'')
       else
         and_then (collectUids ''toUids'' (toUids payload) []) (\<lambda>uids1.
         and_then (collectUids ''ccUids'' (ccUids payload) uids1) (\<lambda>uids2.
         and_then (collectUids ''bccUids'' (bccUids payload) uids2) (\<lambda>uids.
         and_then (getAll e (Object_keys (requested uids))) (\<lambda>documents.
           Inr (payload\<lparr>to := JArr (pushEmails (toFetch uids documents) (toUids payload) to1),
                        cc := JArr (pushEmails (toFetch uids documents) (ccUids payload) cc1),
                        bcc := JArr (pushEmails (toFetch uids documents) (bccUids payload) bcc1)\<rparr>)))))))))"

text \<open>
  The keys that \<^verbatim>\<open>preparePayload\<close> asks the users collection for, when the uid fields of
  the payload are arrays: \<^verbatim>\<open>Object.keys(toFetch)\<close> at line 173.
\<close>

definition uidKeys :: "QueuePayload \<Rightarrow> string list" where
  "uidKeys payload =
     Object_keys (requested (elements (toUids payload) @ elements (ccUids payload)
                             @ elements (bccUids payload)))"

subsection \<open>Delivery\<close>

text \<open>\<^verbatim>\<open>processCreate\<close>: the delivery block of a new document.\<close>

definition processCreate :: "env \<Rightarrow> world \<Rightarrow> (js_error + unit) \<times> world" where
  "processCreate e w =
     (Inr (),
      runTransaction
        [Delivery_map (no_delivery\<lparr>startTime := Some (serverTimestamp e),
                                   state := JStr ''PENDING'',
                                   attempts := JNum 0,
                                   error := JNull\<rparr>)] w)"

text \<open>
  The \<^verbatim>\<open>try\<close> block of \<^verbatim>\<open>deliver\<close> (lines 248 to 276): its outcome, the \<^verbatim>\<open>info\<close> object or
  the exception caught, and the messages given to the transport on the way.
  \<^verbatim>\<open>Object.assign\<close> throws a TypeError on a missing message.
\<close>

definition sendInfo :: "obj \<Rightarrow> obj" where
  "sendInfo result =
     [(''messageId'', js_or (obj_get result ''messageId'') JNull),
      (''accepted'', js_or (obj_get result ''accepted'') (JArr [])),
      (''rejected'', js_or (obj_get result ''rejected'') (JArr [])),
      (''pending'', js_or (obj_get result ''pending'') (JArr [])),
      (''response'', js_or (obj_get result ''response'') JNull)]"

definition mailOf :: "env \<Rightarrow> QueuePayload \<Rightarrow> obj \<Rightarrow> obj" where
  "mailOf e payload msg =
     Object_assign msg
       [[(''from'', js_or (from_addr payload) (defaultFrom e)),
         (''replyTo'', js_or (replyTo payload) (defaultReplyTo e)),
         (''to'', to payload),
         (''cc'', cc payload),
         (''bcc'', bcc payload),
         (''headers'', js_or (headers payload) (JObj []))]]"

definition attemptDelivery :: "env \<Rightarrow> QueuePayload \<Rightarrow> (js_error + obj) \<times> effect list" where
  "attemptDelivery e payload0 =
     (case preparePayload e payload0 of
        Inl err \<Rightarrow> (Inl err, [])
      | Inr payload \<Rightarrow>
          if js_length (to payload) = 0 \<and> js_length (cc payload) = 0 \<and> js_length (bcc payload) = 0
          then (Inl (Error ''Failed to deliver email. Expected at least 1 recipient.''), [])
          else
            (case message payload of
               None \<Rightarrow> (Inl (TypeError ''Cannot convert undefined or null to object''), [])
             | Some msg \<Rightarrow>
                 (case sendMail e (mailOf e payload msg) of
                    Inl err \<Rightarrow> (Inl err, [Send (mailOf e payload msg)])
                  | Inr result \<Rightarrow> (Inr (sendInfo result), [Send (mailOf e payload msg)]))))"

definition deliver :: "env \<Rightarrow> QueuePayload \<Rightarrow> world \<Rightarrow> (js_error + unit) \<times> world" where
  "deliver e payload w =
     (let update =
            [Delivery_attempts_increment 1,
             Delivery_endTime (Some (serverTimestamp e)),
             Delivery_error JNull,
             Delivery_leaseExpireTime None];
          (outcome, sends) = attemptDelivery e payload;
          update' =
            (case outcome of
               Inr delivered \<Rightarrow>
                 set_update (Delivery_info (JObj delivered))
                   (set_update (Delivery_state (JStr ''SUCCESS'')) update)
             | Inl err \<Rightarrow>
                 set_update (Delivery_error (JStr (err_toString err)))
                   (set_update (Delivery_state (JStr ''ERROR'')) update))
      in (Inr (), runTransaction update' (w\<lparr>trace := trace w @ sends\<rparr>)))"

subsection \<open>The state machine\<close>

definition lease_expired :: string where
  "lease_expired = ''Message processing lease expired.''"

text \<open>The \<^verbatim>\<open>ERROR\<close> case of the switch, which the \<^verbatim>\<open>SUCCESS\<close> case falls through to.\<close>

definition case_ERROR :: "Delivery \<Rightarrow> world \<Rightarrow> (js_error + unit) \<times> world" where
  "case_ERROR d w = (Inr (), recordEvent (ErrorEvent (error d)) w)"

text \<open>
  The \<^verbatim>\<open>PROCESSING\<close> case. \<^verbatim>\<open>leaseExpireTime.toMillis()\<close> throws a TypeError when the
  field is null or absent; the wording of its message is the engine's, and the text
  here stands for it.
\<close>

definition case_PROCESSING :: "env \<Rightarrow> Delivery \<Rightarrow> world \<Rightarrow> (js_error + unit) \<times> world" where
  "case_PROCESSING e d w =
     (let w1 = recordEvent ProcessingEvent w
      in case leaseExpireTime d of
           None \<Rightarrow> (Inl (TypeError ''Cannot read properties of null (reading toMillis)''), w1)
         | Some lease \<Rightarrow>
             if lease < now e
             then (Inr (),
                   runTransaction
                     [Delivery_state (JStr ''ERROR''),
                      Top_error (JStr lease_expired),
                      Delivery_error (JStr ''Message processing lease expired.'')]
                     (recordEvent (ErrorEvent (JStr lease_expired)) w1))
             else (Inr (), w1))"

text \<open>The \<^verbatim>\<open>RETRY\<close> case of the switch, which the \<^verbatim>\<open>PENDING\<close> case falls through to.\<close>

definition case_RETRY :: "env \<Rightarrow> QueuePayload \<Rightarrow> world \<Rightarrow> (js_error + unit) \<times> world" where
  "case_RETRY e payload w =
     deliver e payload
       (runTransaction
          [Delivery_state (JStr ''PROCESSING''),
           Delivery_leaseExpireTime (Some (now e + 60000))]
          (recordEvent RetryEvent w))"

definition processWrite :: "env \<Rightarrow> change \<Rightarrow> world \<Rightarrow> (js_error + unit) \<times> world" where
  "processWrite e ch w =
     (case after ch of
        None \<Rightarrow> (Inr (), w)
      | Some payload \<Rightarrow>
          if before ch = None then processCreate e w
          else
            (case delivery payload of
               None \<Rightarrow> (Inr (), w)
             | Some d \<Rightarrow>
                 if state d = JStr ''SUCCESS'' then case_ERROR d (recordEvent SuccessEvent w)
                 else if state d = JStr ''ERROR'' then case_ERROR d w
                 else if state d = JStr ''PROCESSING'' then case_PROCESSING e d w
                 else if state d = JStr ''PENDING'' then case_RETRY e payload (recordEvent PendingEvent w)
                 else if state d = JStr ''RETRY'' then case_RETRY e payload w
                 else (Inr (), w)))"

definition unhandled :: "js_error \<Rightarrow> string" where
  "unhandled err =
     ''Unhandled error occurred during processing: '' @ err_message err @ [CHR 0x22]"

text \<open>
  The handler of \<^verbatim>\<open>processQueue\<close>. \<^verbatim>\<open>initialize\<close>, which sets up the store, the
  transport and the templates, is the environment. The handler returns null from its
  \<^verbatim>\<open>catch\<close> block, before the completion event.
\<close>

definition processQueue :: "env \<Rightarrow> change \<Rightarrow> world \<Rightarrow> (js_error + unit) \<times> world" where
  "processQueue e ch w =
     (let w1 = (if before ch = None then recordEvent StartEvent w else w)
      in case processWrite e ch w1 of
           (Inl err, w2) \<Rightarrow> (Inr (), recordEvent (ErrorEvent (JStr (unhandled err))) w2)
         | (Inr u, w2) \<Rightarrow> (Inr (), recordEvent CompleteEvent w2))"

subsection \<open>The recipient lists as the specification words them\<close>

text \<open>
  The literal addresses of a recipient field: a single string address is a one-element
  sequence, an array is used as it is, an absent field gives no address.
\<close>

definition spec_literal :: "jsval \<Rightarrow> jsval list" where
  "spec_literal v = (case v of JStr s \<Rightarrow> [JStr s] | JArr xs \<Rightarrow> xs | _ \<Rightarrow> [])"

text \<open>
  The addresses resolved from a uid field, in the order of the field: a uid with no
  directory document, or whose document lacks an email, is left out. The directory is
  the answer of the users collection: a uid has an email when a snapshot of an existing
  document with a truthy email carries its key as id, and the last such snapshot gives
  the email.
\<close>

definition spec_email :: "snapshot list \<Rightarrow> string \<Rightarrow> jsval option" where
  "spec_email documents k =
     (case filter (\<lambda>d. snapshot_id d = k \<and> snapshot_exists d \<and> truthy (snapshot_email d)) documents of
        [] \<Rightarrow> None
      | d # ds \<Rightarrow> Some (snapshot_email (last (d # ds))))"

definition spec_resolved :: "snapshot list \<Rightarrow> jsval \<Rightarrow> jsval list" where
  "spec_resolved documents v =
     List.map_filter (\<lambda>uid. spec_email documents (ToString uid)) (elements v)"

text \<open>
  The values that the specification gives a recipient field and a uid field: an address
  field is absent, one string, or a sequence of strings; a uid field is absent or a
  sequence of strings.
\<close>

definition strings :: "jsval \<Rightarrow> bool" where
  "strings v = (case v of JArr xs \<Rightarrow> list_all is_string xs | _ \<Rightarrow> False)"

definition address_field :: "jsval \<Rightarrow> bool" where
  "address_field v = (v = JUndefined \<or> v = JNull \<or> is_string v \<or> strings v)"

definition uid_field :: "jsval \<Rightarrow> bool" where
  "uid_field v = (v = JUndefined \<or> v = JNull \<or> strings v)"

subsection \<open>The attachments as the specification words them\<close>

text \<open>
  The attachments of the merged message: those of the template when the template
  produced attachments, otherwise those supplied in the message, and the empty sequence
  when neither supplies any. A side supplies attachments when its field holds at least
  one.
\<close>

definition supplies :: "jsval \<Rightarrow> bool" where
  "supplies v = (case v of JArr (x # xs) \<Rightarrow> True | _ \<Rightarrow> False)"

definition spec_attachments :: "jsval \<Rightarrow> jsval \<Rightarrow> jsval" where
  "spec_attachments rendered supplied =
     (if supplies rendered then rendered
      else if supplies supplied then supplied
      else JArr [])"

text \<open>An attachments field as the data model has it: absent, or a sequence.\<close>

definition attachments_field :: "jsval \<Rightarrow> bool" where
  "attachments_field v = (case v of JUndefined \<Rightarrow> True | JArr xs \<Rightarrow> True | _ \<Rightarrow> False)"

subsection \<open>An invariant of the table of emails\<close>

text \<open>
  A key is settled in an object when reading it cannot reach a prototype other than
  null: it is an own property, or the object has no prototype.
\<close>

definition settled :: "jsobject \<Rightarrow> string \<Rightarrow> bool" where
  "settled tbl k = (map_of (own tbl) k \<noteq> None \<or> proto tbl = NullPrototype)"

subsection \<open>Sample documents and environments\<close>

text \<open>
  A transport that accepts every recipient of the \<^verbatim>\<open>to\<close> list, no templates, no users
  collection.
\<close>

definition env_plain :: env where
  "env_plain =
     \<lparr>templates = None,
      usersCollection = JUndefined,
      getAll = (\<lambda>ks. Inr (map (\<lambda>k. \<lparr>snapshot_id = k, snapshot_exists = False, snapshot_email = JUndefined\<rparr>) ks)),
      sendMail = (\<lambda>mail. Inr [(''messageId'', JStr ''m1''), (''accepted'', obj_get mail ''to'')]),
      defaultFrom = JStr ''noreply@x.com'',
      defaultReplyTo = JUndefined,
      now = 1000000,
      serverTimestamp = 1000500\<rparr>"

text \<open>The same with a transport that refuses the connection.\<close>

definition env_failing :: env where
  "env_failing = env_plain\<lparr>sendMail := (\<lambda>mail. Inl (Error ''connect ECONNREFUSED''))\<rparr>"

text \<open>
  A templates collection with three templates: \<^verbatim>\<open>welcome\<close> renders a subject and the
  attachment B, \<^verbatim>\<open>plain\<close> renders a subject only, \<^verbatim>\<open>bare\<close> renders a subject and
  an empty array of attachments.
\<close>

definition render_sample :: "jsval \<Rightarrow> jsval \<Rightarrow> js_error + obj" where
  "render_sample name data =
     (if name = JStr ''welcome''
      then Inr [(''subject'', JStr ''Welcome''), (''attachments'', JArr [JStr ''B''])]
      else if name = JStr ''plain'' then Inr [(''subject'', JStr ''Plain'')]
      else if name = JStr ''bare''
      then Inr [(''subject'', JStr ''Bare''), (''attachments'', JArr [])]
      else Inl (Error ''template not found''))"

definition env_templates :: env where
  "env_templates = env_plain\<lparr>templates := Some render_sample\<rparr>"

text \<open>
  A users collection in which \<^verbatim>\<open>u1\<close> has an email, \<^verbatim>\<open>u2\<close> has a document without an
  email, and no other user has a document.
\<close>

definition directory_sample :: "string \<Rightarrow> snapshot" where
  "directory_sample k =
     \<lparr>snapshot_id = k,
      snapshot_exists = (k = ''u1'' \<or> k = ''u2''),
      snapshot_email = (if k = ''u1'' then JStr ''u1@x.com'' else JUndefined)\<rparr>"

definition env_users :: env where
  "env_users = env_plain\<lparr>usersCollection := JStr ''users'', getAll := (\<lambda>ks. Inr (map directory_sample ks))\<rparr>"

text \<open>The document \<^verbatim>\<open>{to: "a@x.com", message: {subject: "hi", text: "hello"}}\<close>.\<close>

definition mail_doc :: QueuePayload where
  "mail_doc =
     \<lparr>template = None,
      message = Some [(''subject'', JStr ''hi''), (''text'', JStr ''hello'')],
      to = JStr ''a@x.com'', cc = JUndefined, bcc = JUndefined,
      toUids = JUndefined, ccUids = JUndefined, bccUids = JUndefined,
      from_addr = JUndefined, replyTo = JUndefined, headers = JUndefined,
      delivery = None, top_error = JUndefined\<rparr>"

text \<open>That document in a given state of its delivery, after no attempt.\<close>

definition in_state :: "string \<Rightarrow> int option \<Rightarrow> QueuePayload" where
  "in_state st lease =
     mail_doc\<lparr>delivery :=
       Some \<lparr>state = JStr st, startTime = Some 900000, endTime = None, attempts = JNum 0,
             error = JNull, info = JUndefined, leaseExpireTime = lease\<rparr>\<rparr>"

text \<open>A write that leaves the document as it is, and the store that holds the document.\<close>

definition update_of :: "QueuePayload \<Rightarrow> change" where
  "update_of doc = \<lparr>before = Some doc, after = Some doc\<rparr>"

definition store_of :: "QueuePayload \<Rightarrow> world" where
  "store_of doc = \<lparr>stored = doc, trace = []\<rparr>"

text \<open>
  The write that creates a document, and the delivery block that \<^verbatim>\<open>processCreate\<close> gives
  a new document in the sample environments.
\<close>

definition creation_of :: "QueuePayload \<Rightarrow> change" where
  "creation_of doc = \<lparr>before = None, after = Some doc\<rparr>"

definition pending_block :: Delivery where
  "pending_block =
     \<lparr>state = JStr ''PENDING'', startTime = Some 1000500, endTime = None, attempts = JNum 0,
      error = JNull, info = JUndefined, leaseExpireTime = None\<rparr>"

text \<open>A document with a template that has data and no name.\<close>

definition unnamed_template_doc :: QueuePayload where
  "unnamed_template_doc = mail_doc\<lparr>template := Some [(''data'', JObj [])]\<rparr>"

text \<open>
  A document with the attachment A in its message and the template of the given name.
\<close>

definition attachment_doc :: "string \<Rightarrow> QueuePayload" where
  "attachment_doc name =
     mail_doc\<lparr>template := Some [(''name'', JStr name)],
              message := Some [(''subject'', JStr ''hi''), (''attachments'', JArr [JStr ''A''])]\<rparr>"


text \<open>The sample document with the template of the given name; its message has no attachments.\<close>

definition template_doc :: "string \<Rightarrow> QueuePayload" where
  "template_doc name = mail_doc\<lparr>template := Some [(''name'', JStr name)]\<rparr>"

section \<open>Properties\<close>

subsection \<open>Effects of the basic steps\<close>

lemma trace_recordEvent: "trace (recordEvent ev w) = trace w @ [Event ev]"
  by (simp add: recordEvent_def)

lemma stored_recordEvent: "stored (recordEvent ev w) = stored w"
  by (simp add: recordEvent_def)

lemma trace_runTransaction: "trace (runTransaction upd w) = trace w @ [Commit upd]"
  by (simp add: runTransaction_def)

lemma stored_runTransaction: "stored (runTransaction upd w) = apply_update upd (stored w)"
  by (simp add: runTransaction_def)

lemmas step_simps =
  trace_recordEvent stored_recordEvent trace_runTransaction stored_runTransaction

lemmas sample_defs =
  env_plain_def env_failing_def env_templates_def env_users_def mail_doc_def in_state_def
  update_of_def store_of_def

lemmas creation_defs =
  processWrite_def processCreate_def runTransaction_def apply_update_def creation_of_def
  pending_block_def no_delivery_def the_delivery_def

lemma and_then_Inr: "and_then m f = Inr y \<longleftrightarrow> (\<exists>x. m = Inr x \<and> f x = Inr y)"
  by (cases m) (simp_all add: and_then_def)

subsection \<open>Payload preparation, step by step\<close>


lemma falsy_elements: "\<not> truthy v \<Longrightarrow> elements v = []"
  by (cases v) simp_all



subsection \<open>The table of emails\<close>

lemma own_key: "k \<in> set (map fst al) \<longleftrightarrow> map_of al k \<noteq> None"
  by (simp add: map_of_eq_None_iff)

lemma assignProperty_settled:
  "settled tbl k \<Longrightarrow> settled (assignProperty k' v tbl) k"
  by (auto simp: settled_def assignProperty_def own_key update_conv' simp del: set_map
           split: jsval.splits)

lemma assignProperty_settles: "settled (assignProperty k JNull tbl) k"
  by (auto simp: settled_def assignProperty_def own_key update_conv' simp del: set_map)

lemma assignProperty_other:
  "k' \<noteq> k \<Longrightarrow> map_of (own (assignProperty k' v tbl)) k = map_of (own tbl) k"
  by (auto simp: assignProperty_def update_conv' split: jsval.splits)

lemma assignProperty_same:
  "settled tbl k \<Longrightarrow> map_of (own (assignProperty k v tbl)) k = Some v"
  by (auto simp: settled_def assignProperty_def own_key update_conv' simp del: set_map
           split: jsval.splits)

lemma assignProperty_null:
  "map_of (own tbl) k \<in> {None, Some JNull} \<Longrightarrow>
   map_of (own (assignProperty k' JNull tbl)) k \<in> {None, Some JNull}"
  by (cases "k' = k") (auto simp: assignProperty_def update_conv')

lemma readProperty_settled:
  "settled tbl k \<Longrightarrow>
   readProperty tbl k = (case map_of (own tbl) k of Some v \<Rightarrow> v | None \<Rightarrow> JUndefined)"
  by (auto simp: settled_def readProperty_def split: option.splits)

lemma requested_from:
  "(settled tbl k \<or> k \<in> ToString ` set uids \<longrightarrow>
      settled (foldl (\<lambda>tbl uid. assignProperty (ToString uid) JNull tbl) tbl uids) k) \<and>
   (map_of (own tbl) k \<in> {None, Some JNull} \<longrightarrow>
      map_of (own (foldl (\<lambda>tbl uid. assignProperty (ToString uid) JNull tbl) tbl uids)) k
        \<in> {None, Some JNull})"
proof (induction uids arbitrary: tbl)
  case Nil
  then show ?case by simp
next
  case (Cons uid uids)
  show ?case
    using Cons.IH [of "assignProperty (ToString uid) JNull tbl"]
      assignProperty_settled [of tbl k "ToString uid" JNull]
      assignProperty_settles [of "ToString uid" tbl]
      assignProperty_null [of tbl k "ToString uid"]
    by auto
qed

lemma requested_settled: "k \<in> ToString ` set uids \<Longrightarrow> settled (requested uids) k"
  using requested_from [of emptyObject k uids] by (simp add: requested_def)

lemma requested_null: "map_of (own (requested uids)) k \<in> {None, Some JNull}"
  using requested_from [of emptyObject k uids] by (simp add: requested_def emptyObject_def)

lemma requested_read:
  "k \<in> ToString ` set uids \<Longrightarrow> \<not> truthy (readProperty (requested uids) k)"
  using requested_null [of uids k]
  by (auto simp: readProperty_settled [OF requested_settled])

lemma recordSnapshot_settled: "settled tbl k \<Longrightarrow> settled (recordSnapshot tbl d) k"
  by (simp add: recordSnapshot_def Let_def assignProperty_settled)

lemma recordSnapshot_read:
  assumes "settled tbl k"
  shows "readProperty (recordSnapshot tbl d) k =
     (if snapshot_id d = k \<and> snapshot_exists d \<and> truthy (snapshot_email d)
      then snapshot_email d else readProperty tbl k)"
proof (cases "snapshot_exists d \<and> truthy (snapshot_email d)")
  case False
  then show ?thesis by (auto simp: recordSnapshot_def Let_def)
next
  case True
  then have r: "recordSnapshot tbl d = assignProperty (snapshot_id d) (snapshot_email d) tbl"
    by (simp add: recordSnapshot_def Let_def)
  have s: "settled (assignProperty (snapshot_id d) (snapshot_email d) tbl) k"
    using assms by (rule assignProperty_settled)
  show ?thesis
    unfolding r readProperty_settled [OF s] readProperty_settled [OF assms]
    using True assms by (auto simp: assignProperty_same assignProperty_other)
qed

lemma snapshots_read:
  assumes "settled tbl k"
  shows "readProperty (foldl recordSnapshot tbl documents) k =
     (case spec_email documents k of Some email \<Rightarrow> email | None \<Rightarrow> readProperty tbl k)"
  using assms
proof (induction documents arbitrary: tbl)
  case Nil
  then show ?case by (simp add: spec_email_def)
next
  case (Cons d documents)
  from Cons.prems have s: "settled (recordSnapshot tbl d) k" by (rule recordSnapshot_settled)
  show ?case
    using Cons.IH [OF s] recordSnapshot_read [OF Cons.prems, of d]
    by (auto simp: spec_email_def split: list.splits)
qed

lemma spec_email_truthy: "spec_email documents k = Some email \<Longrightarrow> truthy email"
proof -
  assume a: "spec_email documents k = Some email"
  define ds where "ds = filter (\<lambda>d. snapshot_id d = k \<and> snapshot_exists d \<and> truthy (snapshot_email d)) documents"
  from a have "ds \<noteq> []" "email = snapshot_email (last ds)"
    by (auto simp: spec_email_def ds_def split: list.splits)
  moreover from \<open>ds \<noteq> []\<close> have "last ds \<in> set ds" by simp
  ultimately show ?thesis by (auto simp: ds_def)
qed

lemma snapshots_settled: "settled tbl k \<Longrightarrow> settled (foldl recordSnapshot tbl documents) k"
  by (induction documents arbitrary: tbl) (simp_all add: recordSnapshot_settled)

text \<open>
  Every read of \<^verbatim>\<open>preparePayload\<close> is the read of the key of a uid: the key is settled,
  what is read is truthy exactly when the answer holds an email for the key, and is
  that email.
\<close>

lemma toFetch_read:
  assumes "k \<in> ToString ` set uids"
  shows "settled (toFetch uids documents) k"
    and "truthy (readProperty (toFetch uids documents) k) \<longleftrightarrow> spec_email documents k \<noteq> None"
    and "spec_email documents k = Some email \<Longrightarrow> readProperty (toFetch uids documents) k = email"
proof -
  have s: "settled (requested uids) k" using assms by (rule requested_settled)
  then show "settled (toFetch uids documents) k"
    unfolding toFetch_def by (rule snapshots_settled)
  show "truthy (readProperty (toFetch uids documents) k) \<longleftrightarrow> spec_email documents k \<noteq> None"
    unfolding toFetch_def snapshots_read [OF s]
    using requested_read [OF assms] spec_email_truthy [of documents k]
    by (auto split: option.splits)
  show "spec_email documents k = Some email \<Longrightarrow> readProperty (toFetch uids documents) k = email"
    unfolding toFetch_def snapshots_read [OF s] by simp
qed

lemma foldl_push:
  assumes "set xs \<subseteq> set uids"
  shows "foldl (\<lambda>acc uid. let email = readProperty (toFetch uids documents) (ToString uid)
                     in if truthy email then acc @ [email] else acc) acc xs
   = acc @ List.map_filter (\<lambda>uid. spec_email documents (ToString uid)) xs"
  using assms
proof (induction xs arbitrary: acc)
  case Nil
  then show ?case by (simp add:)
next
  case (Cons uid xs)
  then have k: "ToString uid \<in> ToString ` set uids" by auto
  show ?case
    using Cons toFetch_read(2,3) [OF k, of documents]
    by (cases "spec_email documents (ToString uid)") (auto simp: Let_def)
qed

lemma pushEmails_spec:
  "set (elements v) \<subseteq> set uids \<Longrightarrow>
   pushEmails (toFetch uids documents) v acc = acc @ spec_resolved documents v"
  by (simp add: pushEmails_def spec_resolved_def foldl_push falsy_elements)


subsection \<open>When the preparation returns, and what\<close>

lemma mergeTemplate_frame:
  assumes "mergeTemplate e payload = Inr merged"
  shows "merged = payload\<lparr>message := message merged\<rparr>"
  using assms
  by (auto simp: mergeTemplate_def Let_def split: option.splits if_splits sum.splits)

lemma validateFieldArray_strings:
  assumes "strings v"
  shows "validateFieldArray field v = Inr ()"
proof -
  from assms obtain xs where v: "v = JArr xs" and s: "list_all is_string xs"
    by (cases v) (simp_all add: strings_def)
  from s have "find (\<lambda>item. \<not> is_string item) xs = None"
    by (simp add: find_None_iff list_all_iff)
  with v show ?thesis by (simp add: validateFieldArray_def)
qed

lemma literalAddresses_returns:
  "address_field v \<Longrightarrow> literalAddresses field v = Inr (spec_literal v)"
  by (cases v)
     (auto simp: address_field_def literalAddresses_def spec_literal_def strings_def
           validateFieldArray_strings)

lemma collectUids_returns:
  "uid_field v \<Longrightarrow> collectUids field v uids = Inr (uids @ elements v)"
  by (cases v) (auto simp: uid_field_def collectUids_def strings_def validateFieldArray_strings)

lemma spec_resolved_absent: "\<not> truthy v \<Longrightarrow> spec_resolved documents v = []"
  by (simp add: spec_resolved_def falsy_elements)


lemma preparePayload_returns:
  assumes m: "mergeTemplate e payload = Inr merged"
    and a: "address_field (to payload)" "address_field (cc payload)" "address_field (bcc payload)"
    and u: "uid_field (toUids payload)" "uid_field (ccUids payload)" "uid_field (bccUids payload)"
    and d: "truthy (toUids payload) \<or> truthy (ccUids payload) \<or> truthy (bccUids payload) \<longrightarrow>
            truthy (usersCollection e) \<and> getAll e (uidKeys payload) = Inr documents"
  shows "preparePayload e payload =
     Inr (merged\<lparr>to := JArr (spec_literal (to payload) @ spec_resolved documents (toUids payload)),
                 cc := JArr (spec_literal (cc payload) @ spec_resolved documents (ccUids payload)),
                 bcc := JArr (spec_literal (bcc payload) @ spec_resolved documents (bccUids payload))\<rparr>)"
proof -
  have same: "to merged = to payload" "cc merged = cc payload" "bcc merged = bcc payload"
    "toUids merged = toUids payload" "ccUids merged = ccUids payload"
    "bccUids merged = bccUids payload"
    by (subst mergeTemplate_frame [OF m], simp)+
  define uids where
    "uids = elements (toUids payload) @ elements (ccUids payload) @ elements (bccUids payload)"
  have push: "pushEmails (toFetch uids documents) v acc = acc @ spec_resolved documents v"
    if "v = toUids payload \<or> v = ccUids payload \<or> v = bccUids payload" for v acc
    using that by (intro pushEmails_spec) (auto simp: uids_def)
  show ?thesis
  proof (cases "truthy (toUids payload) \<or> truthy (ccUids payload) \<or> truthy (bccUids payload)")
    case False
    then show ?thesis
      unfolding preparePayload_def m
      by (simp add: and_then_def same literalAddresses_returns a spec_resolved_absent)
  next
    case True
    with d have c: "truthy (usersCollection e)"
      and g: "getAll e (Object_keys (requested uids)) = Inr documents"
      by (simp_all add: uidKeys_def uids_def)
    have cu: "collectUids ''toUids'' (toUids payload) [] = Inr (elements (toUids payload))"
      "collectUids ''ccUids'' (ccUids payload) (elements (toUids payload))
         = Inr (elements (toUids payload) @ elements (ccUids payload))"
      "collectUids ''bccUids'' (bccUids payload) (elements (toUids payload) @ elements (ccUids payload))
         = Inr uids"
      by (simp_all add: collectUids_returns u uids_def)
    show ?thesis
      unfolding preparePayload_def m
      using True
      by (auto simp: and_then_def same literalAddresses_returns a c cu g push)
  qed
qed


lemma obj_get_assigned_last:
  "obj_get (Object_assign target [source, [(k, v)]]) k = v"
  by (simp add: Object_assign_def assign1_def obj_get_def update_conv')

lemma preparePayload_message:
  assumes "preparePayload e payload = Inr p"
  shows "\<exists>merged. mergeTemplate e payload = Inr merged \<and> message p = message merged"
  using assms
  by (auto simp: preparePayload_def and_then_Inr split: if_splits)

lemma mergeTemplate_returns:
  assumes "templates e = Some render" and "template payload = Some t"
    and "truthy (obj_get t ''name'')"
    and "render (obj_get t ''name'') (obj_get t ''data'') = Inr templateRender"
  shows "mergeTemplate e payload =
     Inr (payload\<lparr>message := Some
       (Object_assign (case message payload of Some m \<Rightarrow> m | None \<Rightarrow> [])
          [templateRender,
           [(''attachments'',
             js_or (if truthy (obj_get templateRender ''attachments'')
                    then obj_get templateRender ''attachments''
                    else obj_get (case message payload of Some m \<Rightarrow> m | None \<Rightarrow> []) ''attachments'')
               (JArr []))]])\<rparr>)"
  using assms by (simp add: mergeTemplate_def Let_def)

lemma spec_attachments_truthy:
  assumes "attachments_field rendered" and "attachments_field supplied" and "rendered \<noteq> JArr []"
  shows "spec_attachments rendered supplied =
     (if truthy rendered then rendered else if truthy supplied then supplied else JArr [])"
  using assms
  by (auto simp: spec_attachments_def supplies_def attachments_field_def
           split: jsval.splits list.splits)

subsection \<open>The delivery executor, path by path\<close>

lemma deliver_Inr:
  assumes "attemptDelivery e payload = (Inr delivered, sends)"
  shows "deliver e payload w =
     (Inr (),
      runTransaction
        [Delivery_attempts_increment 1, Delivery_endTime (Some (serverTimestamp e)),
         Delivery_error JNull, Delivery_leaseExpireTime None,
         Delivery_state (JStr ''SUCCESS''), Delivery_info (JObj delivered)]
        (w\<lparr>trace := trace w @ sends\<rparr>))"
  using assms by (simp add: deliver_def)

lemma deliver_Inl:
  assumes "attemptDelivery e payload = (Inl err, sends)"
  shows "deliver e payload w =
     (Inr (),
      runTransaction
        [Delivery_attempts_increment 1, Delivery_endTime (Some (serverTimestamp e)),
         Delivery_error (JStr (err_toString err)), Delivery_leaseExpireTime None,
         Delivery_state (JStr ''ERROR'')]
        (w\<lparr>trace := trace w @ sends\<rparr>))"
  using assms by (simp add: deliver_def)

lemma attemptDelivery_cases:
  obtains
    (prepare) err where "preparePayload e payload = Inl err"
      "attemptDelivery e payload = (Inl err, [])"
  | (nobody) p where "preparePayload e payload = Inr p"
      "js_length (to p) = 0 \<and> js_length (cc p) = 0 \<and> js_length (bcc p) = 0"
      "attemptDelivery e payload =
         (Inl (Error ''Failed to deliver email. Expected at least 1 recipient.''), [])"
  | (nomessage) p where "preparePayload e payload = Inr p"
      "\<not> (js_length (to p) = 0 \<and> js_length (cc p) = 0 \<and> js_length (bcc p) = 0)"
      "message p = None"
      "attemptDelivery e payload =
         (Inl (TypeError ''Cannot convert undefined or null to object''), [])"
  | (refused) p msg err where "preparePayload e payload = Inr p"
      "\<not> (js_length (to p) = 0 \<and> js_length (cc p) = 0 \<and> js_length (bcc p) = 0)"
      "message p = Some msg" "sendMail e (mailOf e p msg) = Inl err"
      "attemptDelivery e payload = (Inl err, [Send (mailOf e p msg)])"
  | (sent) p msg result where "preparePayload e payload = Inr p"
      "\<not> (js_length (to p) = 0 \<and> js_length (cc p) = 0 \<and> js_length (bcc p) = 0)"
      "message p = Some msg" "sendMail e (mailOf e p msg) = Inr result"
      "attemptDelivery e payload = (Inr (sendInfo result), [Send (mailOf e p msg)])"
proof (cases "preparePayload e payload")
  case (Inl err)
  then show ?thesis using prepare by (simp add: attemptDelivery_def)
next
  case (Inr p)
  show ?thesis
  proof (cases "js_length (to p) = 0 \<and> js_length (cc p) = 0 \<and> js_length (bcc p) = 0")
    case True
    with Inr show ?thesis using nobody by (simp add: attemptDelivery_def)
  next
    case False
    show ?thesis
    proof (cases "message p")
      case None
      with Inr False show ?thesis using nomessage [of p] by (simp add: attemptDelivery_def)
    next
      case (Some msg)
      show ?thesis
      proof (cases "sendMail e (mailOf e p msg)")
        case (Inl err)
        with Inr False Some show ?thesis using refused [of p msg err]
          by (simp add: attemptDelivery_def)
      next
        case r: (Inr result)
        with Inr False Some show ?thesis using sent [of p msg result]
          by (simp add: attemptDelivery_def)
      qed
    qed
  qed
qed

lemma sendInfo_defaults:
  "sendInfo result =
     map (\<lambda>(k, dflt). (k, case map_of result k of
                            None \<Rightarrow> dflt
                          | Some v \<Rightarrow> if truthy v then v else dflt))
       [(''messageId'', JNull), (''accepted'', JArr []), (''rejected'', JArr []),
        (''pending'', JArr []), (''response'', JNull)]"
  by (simp add: sendInfo_def js_or_def obj_get_def split: option.splits)


lemma one_send: "\<exists>mails. [Send mail] = map Send mails"
  by (rule exI [of _ "[mail]"]) simp

subsection \<open>What one invocation adds to the trace\<close>

lemma attemptDelivery_sends:
  "snd (attemptDelivery e payload) = [] \<or> (\<exists>mail. snd (attemptDelivery e payload) = [Send mail])"
  by (simp add: attemptDelivery_def split: sum.splits option.splits)

lemma deliver_returns: "fst (deliver e payload w) = Inr ()"
  by (simp add: deliver_def Let_def split: prod.splits)

lemma deliver_trace:
  "\<exists>upd. trace (snd (deliver e payload w)) = trace w @ snd (attemptDelivery e payload) @ [Commit upd]
     \<and> stored (snd (deliver e payload w)) = apply_update upd (stored w)"
  by (simp add: deliver_def Let_def step_simps split: prod.splits)

lemma case_RETRY_returns: "fst (case_RETRY e payload w) = Inr ()"
  by (simp add: case_RETRY_def deliver_returns)

lemma case_RETRY_trace:
  "\<exists>upd. trace (snd (case_RETRY e payload w)) =
      trace w @ [Event RetryEvent,
                 Commit [Delivery_state (JStr ''PROCESSING''),
                         Delivery_leaseExpireTime (Some (now e + 60000))]]
        @ snd (attemptDelivery e payload) @ [Commit upd]"
  using deliver_trace [of e payload "runTransaction
          [Delivery_state (JStr ''PROCESSING''),
           Delivery_leaseExpireTime (Some (now e + 60000))]
          (recordEvent RetryEvent w)"]
  by (auto simp: case_RETRY_def step_simps)

text \<open>What processWrite adds to the trace holds neither a start nor a completion event.\<close>

lemma case_RETRY_inner:
  "\<exists>new. trace (snd (case_RETRY e payload w)) = trace w @ new \<and>
     Event StartEvent \<notin> set new \<and> Event CompleteEvent \<notin> set new"
proof -
  obtain upd where "trace (snd (case_RETRY e payload w)) =
      trace w @ [Event RetryEvent,
                 Commit [Delivery_state (JStr ''PROCESSING''),
                         Delivery_leaseExpireTime (Some (now e + 60000))]]
        @ snd (attemptDelivery e payload) @ [Commit upd]"
    using case_RETRY_trace by blast
  moreover have "Event StartEvent \<notin> set (snd (attemptDelivery e payload))"
    "Event CompleteEvent \<notin> set (snd (attemptDelivery e payload))"
    using attemptDelivery_sends [of e payload] by auto
  ultimately show ?thesis by simp
qed

lemma processWrite_inner:
  "\<exists>new. trace (snd (processWrite e ch w)) = trace w @ new \<and>
     Event StartEvent \<notin> set new \<and> Event CompleteEvent \<notin> set new"
proof (cases "after ch")
  case None
  then show ?thesis by (simp add: processWrite_def)
next
  case (Some payload)
  show ?thesis
  proof (cases "before ch")
    case None
    with Some show ?thesis
      by (simp add: processWrite_def processCreate_def step_simps)
  next
    case b: (Some b)
    show ?thesis
    proof (cases "delivery payload")
      case None
      with Some b show ?thesis by (simp add: processWrite_def)
    next
      case d: (Some d)
      have r1: "\<exists>new. trace (snd (case_RETRY e payload (recordEvent PendingEvent w))) = trace w @ new
                  \<and> Event StartEvent \<notin> set new \<and> Event CompleteEvent \<notin> set new"
        using case_RETRY_inner [of e payload "recordEvent PendingEvent w"]
        by (auto simp: step_simps)
      show ?thesis
        using Some b d r1 case_RETRY_inner [of e payload w]
        by (auto simp: processWrite_def case_ERROR_def case_PROCESSING_def step_simps
            Let_def split: option.splits)
    qed
  qed
qed

lemma attempt_returns:
  assumes "before ch = Some b" and "after ch = Some payload" and "delivery payload = Some d"
    and "state d = JStr ''PENDING'' \<or> state d = JStr ''RETRY''"
  shows "fst (processWrite e ch w) = Inr ()"
  using assms by (auto simp: processWrite_def case_RETRY_returns)

subsection \<open>The sample documents, prepared\<close>

lemma preparePayload_mail_doc:
  "preparePayload env_plain (in_state ''RETRY'' None) =
     Inr ((in_state ''RETRY'' None)\<lparr>to := JArr [JStr ''a@x.com''], cc := JArr [], bcc := JArr []\<rparr>)"
  by (simp add: preparePayload_def and_then_def mergeTemplate_def literalAddresses_def sample_defs)

lemma preparePayload_failing:
  "preparePayload env_failing (in_state ''RETRY'' None) =
     Inr ((in_state ''RETRY'' None)\<lparr>to := JArr [JStr ''a@x.com''], cc := JArr [], bcc := JArr []\<rparr>)"
  by (simp add: preparePayload_def and_then_def mergeTemplate_def literalAddresses_def sample_defs)

lemma sample_fields:
  "address_field (JStr s)" "address_field JUndefined" "uid_field JUndefined"
  by (simp_all add: address_field_def uid_field_def)


subsection \<open>Keys that are not the id of a user document\<close>

text \<open>
  The first uid \<^verbatim>\<open>__proto__\<close> creates no key: it is not asked for, and reads
  \<^verbatim>\<open>undefined\<close>. A snapshot is stored under its id, which for a uid that is a path into
  a subcollection is not the uid.
\<close>

lemma requested_proto_key:
  "requested [JStr ''__proto__'', JStr ''u1''] = \<lparr>own = [(''u1'', JNull)], proto = NullPrototype\<rparr> \<and>
   Object_keys (requested [JStr ''__proto__'', JStr ''u1'']) = [''u1''] \<and>
   readProperty (toFetch [JStr ''__proto__'', JStr ''u1''] [directory_sample ''u1'']) ''__proto__''
     = JUndefined \<and>
   readProperty (toFetch [JStr ''__proto__'', JStr ''u1''] [directory_sample ''u1'']) ''u1''
     = JStr ''u1@x.com''"
  by (simp add: requested_def toFetch_def recordSnapshot_def assignProperty_def emptyObject_def
      Object_keys_def array_index_def is_digit_def readProperty_def directory_sample_def)

lemma toFetch_path_key:
  "Object_keys (requested [JStr ''a/b/c'']) = [''a/b/c''] \<and>
   toFetch [JStr ''a/b/c'']
     [\<lparr>snapshot_id = ''c'', snapshot_exists = True, snapshot_email = JStr ''n@x.com''\<rparr>]
     = \<lparr>own = [(''a/b/c'', JNull), (''c'', JStr ''n@x.com'')], proto = ObjectPrototype\<rparr>"
  by (simp add: requested_def toFetch_def recordSnapshot_def assignProperty_def emptyObject_def
      Object_keys_def array_index_def is_digit_def)

text \<open>
  \<^verbatim>\<open>Object.keys\<close> lists array indices first, in ascending order. An object or array
  assigned to \<^verbatim>\<open>__proto__\<close> becomes the prototype, a string does not.
\<close>

lemma Object_keys_order:
  "Object_keys (requested [JStr ''b'', JStr ''10'', JStr ''2'', JStr ''01'', JStr ''b'']) =
     [''2'', ''10'', ''b'', ''01'']"
  by (simp add: requested_def assignProperty_def emptyObject_def Object_keys_def
      array_index_def is_digit_def)

lemma prototype_from_value:
  "assignProperty ''__proto__'' (JObj [(''x'', JNum 1)]) emptyObject =
     \<lparr>own = [], proto = ValuePrototype (JObj [(''x'', JNum 1)])\<rparr> \<and>
   readProperty (assignProperty ''__proto__'' (JObj [(''x'', JNum 1)]) emptyObject) ''x'' = JNum 1 \<and>
   assignProperty ''__proto__'' (JStr ''n@x.com'') emptyObject = emptyObject \<and>
   readProperty emptyObject ''u1'' = JUndefined \<and>
   readProperty emptyObject ''constructor'' = JObj []"
  by (simp add: assignProperty_def emptyObject_def readProperty_def from_object_prototype_def
      object_prototype_names_def)

subsection \<open>The state machine: a lease that is held\<close>

text \<open>
  Claim C1, as amended. On a write to an existing document whose delivery state is \<^verbatim>\<open>PROCESSING\<close> and
  whose lease has not expired (\<^verbatim>\<open>leaseExpireTime\<close> is not before \<^verbatim>\<open>Date.now()\<close>),
  \<^verbatim>\<open>processWrite\<close> returns normally, leaves the stored document as it is, and adds to
  the trace the processing event and nothing else: no update is committed and nothing is
  given to the transport.
\<close>

theorem processWrite_lease_held:
  assumes "before ch = Some b" and "after ch = Some payload"
    and "delivery payload = Some d" and "state d = JStr ''PROCESSING''"
    and "leaseExpireTime d = Some lease" and "\<not> lease < now e"
  shows "processWrite e ch w = (Inr (), w\<lparr>trace := trace w @ [Event ProcessingEvent]\<rparr>)"
  using assms by (simp add: processWrite_def case_PROCESSING_def recordEvent_def)

theorem processWrite_lease_held_witness:
  "processWrite env_plain (update_of (in_state ''PROCESSING'' (Some 1000000)))
     (store_of (in_state ''PROCESSING'' (Some 1000000)))
   = (Inr (), \<lparr>stored = in_state ''PROCESSING'' (Some 1000000), trace = [Event ProcessingEvent]\<rparr>)"
proof -
  let ?doc = "in_state ''PROCESSING'' (Some 1000000)"
  have "before (update_of ?doc) = Some ?doc" and "after (update_of ?doc) = Some ?doc"
    and "delivery ?doc = Some (the_delivery ?doc)"
    and "state (the_delivery ?doc) = JStr ''PROCESSING''"
    and "leaseExpireTime (the_delivery ?doc) = Some 1000000"
    and "\<not> (1000000::int) < now env_plain"
    by (simp_all add: sample_defs the_delivery_def)
  from processWrite_lease_held [OF this, of "store_of ?doc"]
  show ?thesis by (simp add: store_of_def)
qed

text \<open>
  The claim as it was stated, for every document in state \<^verbatim>\<open>PROCESSING\<close> with a lease
  that is held, fails for the write that creates such a document: \<^verbatim>\<open>processWrite\<close> hands
  it to \<^verbatim>\<open>processCreate\<close> before it reads the state, the delivery block is replaced by a
  \<^verbatim>\<open>PENDING\<close> one, and no processing event is recorded.
\<close>

theorem processWrite_lease_held_counterexample:
  "state (the_delivery (in_state ''PROCESSING'' (Some 2000000))) = JStr ''PROCESSING'' \<and>
   leaseExpireTime (the_delivery (in_state ''PROCESSING'' (Some 2000000))) = Some 2000000 \<and>
   now env_plain = 1000000 \<and>
   processWrite env_plain (creation_of (in_state ''PROCESSING'' (Some 2000000)))
       (store_of (in_state ''PROCESSING'' (Some 2000000))) =
     (Inr (), \<lparr>stored = mail_doc\<lparr>delivery := Some pending_block\<rparr>,
               trace = [Commit [Delivery_map pending_block]]\<rparr>)"
  by (simp add: creation_defs sample_defs)

subsection \<open>The update that deliver commits\<close>

text \<open>
  Claim C2. For every payload, \<^verbatim>\<open>deliver\<close> returns normally and commits exactly one
  update, after at most one message is given to the transport. The update changes the
  delivery block only: it increments \<^verbatim>\<open>attempts\<close> by 1 (a numeric count \<open>n\<close> becomes
  \<open>n + 1\<close>), stamps \<^verbatim>\<open>endTime\<close> with the server time and sets \<^verbatim>\<open>leaseExpireTime\<close> to
  null, whatever the outcome. When the preparation succeeds, some recipient remains and
  the transport accepts the message, the state becomes \<^verbatim>\<open>SUCCESS\<close>, the error null, and
  \<^verbatim>\<open>info\<close> holds the five fields of the transport's result, a field that is absent (or
  falsy) replaced by null for \<^verbatim>\<open>messageId\<close> and \<^verbatim>\<open>response\<close> and by the empty array for
  \<^verbatim>\<open>accepted\<close>, \<^verbatim>\<open>rejected\<close> and \<^verbatim>\<open>pending\<close>. When the preparation fails, or no
  recipient remains, or the transport fails, the state becomes \<^verbatim>\<open>ERROR\<close> and the error
  the failure's \<^verbatim>\<open>toString()\<close>. (The one other path, a prepared payload without a
  message, on which \<^verbatim>\<open>Object.assign\<close> throws before the transport is called, also ends
  in \<^verbatim>\<open>ERROR\<close>.)
\<close>

theorem deliver_commits_outcome:
  "let w' = snd (deliver e payload w);
       d = the_delivery (stored w);
       d' = the_delivery (stored w')
   in fst (deliver e payload w) = Inr () \<and>
      (\<exists>mails upd. trace w' = trace w @ map Send mails @ [Commit upd] \<and>
                    stored w' = apply_update upd (stored w)) \<and>
      stored w' = (stored w)\<lparr>delivery := Some d'\<rparr> \<and>
      attempts d' = increment 1 (attempts d) \<and>
      (\<forall>n. attempts d = JNum n \<longrightarrow> attempts d' = JNum (n + 1)) \<and>
      endTime d' = Some (serverTimestamp e) \<and>
      leaseExpireTime d' = None \<and>
      startTime d' = startTime d \<and>
      (\<forall>p msg result.
          preparePayload e payload = Inr p \<and>
          \<not> (js_length (to p) = 0 \<and> js_length (cc p) = 0 \<and> js_length (bcc p) = 0) \<and>
          message p = Some msg \<and> sendMail e (mailOf e p msg) = Inr result \<longrightarrow>
          state d' = JStr ''SUCCESS'' \<and> error d' = JNull \<and>
          info d' =
            JObj (map (\<lambda>(k, dflt). (k, case map_of result k of
                                          None \<Rightarrow> dflt
                                        | Some v \<Rightarrow> if truthy v then v else dflt))
                    [(''messageId'', JNull), (''accepted'', JArr []), (''rejected'', JArr []),
                     (''pending'', JArr []), (''response'', JNull)])) \<and>
      (\<forall>err. preparePayload e payload = Inl err \<longrightarrow>
          state d' = JStr ''ERROR'' \<and> error d' = JStr (err_toString err)) \<and>
      (\<forall>p. preparePayload e payload = Inr p \<and>
          js_length (to p) = 0 \<and> js_length (cc p) = 0 \<and> js_length (bcc p) = 0 \<longrightarrow>
          state d' = JStr ''ERROR'' \<and>
          error d' = JStr ''Error: Failed to deliver email. Expected at least 1 recipient.'') \<and>
      (\<forall>p msg err.
          preparePayload e payload = Inr p \<and>
          \<not> (js_length (to p) = 0 \<and> js_length (cc p) = 0 \<and> js_length (bcc p) = 0) \<and>
          message p = Some msg \<and> sendMail e (mailOf e p msg) = Inl err \<longrightarrow>
          state d' = JStr ''ERROR'' \<and> error d' = JStr (err_toString err)) \<and>
      (\<forall>p. preparePayload e payload = Inr p \<and>
          \<not> (js_length (to p) = 0 \<and> js_length (cc p) = 0 \<and> js_length (bcc p) = 0) \<and>
          message p = None \<longrightarrow>
          state d' = JStr ''ERROR'')"
proof (cases rule: attemptDelivery_cases [of e payload])
  case (prepare err)
  show ?thesis
    unfolding Let_def deliver_Inl [OF prepare(2)] using prepare(1)
    by (simp add: step_simps apply_update_def the_delivery_def)
next
  case (nobody p)
  show ?thesis
    unfolding Let_def deliver_Inl [OF nobody(3)] using nobody(1,2)
    by (simp add: step_simps apply_update_def the_delivery_def err_toString_def)
next
  case (nomessage p)
  show ?thesis
    unfolding Let_def deliver_Inl [OF nomessage(4)] using nomessage(1,2,3)
    by (auto simp: step_simps apply_update_def the_delivery_def)
next
  case (refused p msg err)
  show ?thesis
    unfolding Let_def deliver_Inl [OF refused(5)] using refused(1,2,3,4)
    by (auto simp: step_simps apply_update_def the_delivery_def one_send)
next
  case (sent p msg result)
  show ?thesis
    unfolding Let_def deliver_Inr [OF sent(5)] using sent(1,2,3,4)
    by (auto simp: step_simps apply_update_def the_delivery_def sendInfo_defaults one_send)
qed


theorem deliver_commits_outcome_witness:
  "state (the_delivery (stored (snd (deliver env_plain (in_state ''RETRY'' None)
       (store_of (in_state ''RETRY'' None)))))) = JStr ''SUCCESS'' \<and>
   attempts (the_delivery (stored (snd (deliver env_plain (in_state ''RETRY'' None)
       (store_of (in_state ''RETRY'' None)))))) = JNum 1 \<and>
   info (the_delivery (stored (snd (deliver env_plain (in_state ''RETRY'' None)
       (store_of (in_state ''RETRY'' None)))))) =
     JObj [(''messageId'', JStr ''m1''), (''accepted'', JArr [JStr ''a@x.com'']),
           (''rejected'', JArr []), (''pending'', JArr []), (''response'', JNull)] \<and>
   state (the_delivery (stored (snd (deliver env_failing (in_state ''RETRY'' None)
       (store_of (in_state ''RETRY'' None)))))) = JStr ''ERROR'' \<and>
   error (the_delivery (stored (snd (deliver env_failing (in_state ''RETRY'' None)
       (store_of (in_state ''RETRY'' None)))))) = JStr ''Error: connect ECONNREFUSED'' \<and>
   attempts (the_delivery (stored (snd (deliver env_failing (in_state ''RETRY'' None)
       (store_of (in_state ''RETRY'' None)))))) = JNum 1"
proof -
  let ?doc = "in_state ''RETRY'' None"
  let ?p = "?doc\<lparr>to := JArr [JStr ''a@x.com''], cc := JArr [], bcc := JArr []\<rparr>"
  let ?msg = "[(''subject'', JStr ''hi''), (''text'', JStr ''hello'')]"
  let ?result = "[(''messageId'', JStr ''m1''), (''accepted'', JArr [JStr ''a@x.com''])]"
  have count: "attempts (the_delivery (stored (store_of ?doc))) = JNum 0"
    by (simp add: sample_defs the_delivery_def)
  have nonzero: "\<not> (js_length (to ?p) = 0 \<and> js_length (cc ?p) = 0 \<and> js_length (bcc ?p) = 0)"
    and msg: "message ?p = Some ?msg"
    by (simp_all add: sample_defs)
  have ok: "sendMail env_plain (mailOf env_plain ?p ?msg) = Inr ?result"
    by (simp add: sample_defs mailOf_def Object_assign_def assign1_def obj_get_def)
  have ko: "sendMail env_failing (mailOf env_failing ?p ?msg) = Inl (Error ''connect ECONNREFUSED'')"
    by (simp add: sample_defs)
  have str: "err_toString (Error ''connect ECONNREFUSED'') = ''Error: connect ECONNREFUSED''"
    by (simp add: err_toString_def)
  note good = deliver_commits_outcome [of env_plain ?doc "store_of ?doc", unfolded Let_def]
  note bad = deliver_commits_outcome [of env_failing ?doc "store_of ?doc", unfolded Let_def]
  let ?d1 = "the_delivery (stored (snd (deliver env_plain ?doc (store_of ?doc))))"
  let ?d2 = "the_delivery (stored (snd (deliver env_failing ?doc (store_of ?doc))))"
  from good count have "attempts ?d1 = JNum (0 + 1)" by blast
  moreover from bad count have "attempts ?d2 = JNum (0 + 1)" by blast
  moreover from good preparePayload_mail_doc nonzero msg ok
  have "state ?d1 = JStr ''SUCCESS'' \<and>
        info ?d1 = JObj (map (\<lambda>(k, dflt). (k, case map_of ?result k of
                                          None \<Rightarrow> dflt
                                        | Some v \<Rightarrow> if truthy v then v else dflt))
                    [(''messageId'', JNull), (''accepted'', JArr []), (''rejected'', JArr []),
                     (''pending'', JArr []), (''response'', JNull)])"
    by blast
  moreover from bad preparePayload_failing nonzero msg ko
  have "state ?d2 = JStr ''ERROR'' \<and>
        error ?d2 = JStr (err_toString (Error ''connect ECONNREFUSED''))"
    by blast
  ultimately show ?thesis by (simp add: str)
qed

subsection \<open>The trigger handler\<close>

text \<open>
  Claim C3, as amended. The handler of \<^verbatim>\<open>processQueue\<close> always returns normally. When
  \<^verbatim>\<open>processWrite\<close> throws, the handler records, as its last effect, an error event whose
  message is \<^verbatim>\<open>Unhandled error occurred during processing: \<close> followed by the message of
  the exception, and records no completion event. When \<^verbatim>\<open>processWrite\<close> returns, the handler
  records the completion event as its last effect, once. Hence the completion event is
  recorded on the two early returns of \<^verbatim>\<open>processWrite\<close>, for a deleted document and for
  a document without a delivery field, and it is not recorded on the path of the
  unhandled error. A failure of the preparation or of the transport does not reach the
  handler: for a document in state \<^verbatim>\<open>PENDING\<close> or \<^verbatim>\<open>RETRY\<close>, \<^verbatim>\<open>processWrite\<close> returns
  normally, \<^verbatim>\<open>deliver\<close> having committed the failure as the state \<^verbatim>\<open>ERROR\<close>.
\<close>

theorem processQueue_outcome:
  "let w1 = (if before ch = None then recordEvent StartEvent w else w)
   in fst (processQueue e ch w) = Inr () \<and>
      (\<exists>new. trace (snd (processQueue e ch w)) = trace w1 @ new \<and>
         (case fst (processWrite e ch w1) of
            Inl err \<Rightarrow>
              last new = Event (ErrorEvent (JStr (''Unhandled error occurred during processing: ''
                                                @ err_message err @ [CHR 0x22]))) \<and>
              Event CompleteEvent \<notin> set new
          | Inr u \<Rightarrow>
              last new = Event CompleteEvent \<and> Event CompleteEvent \<notin> set (butlast new))) \<and>
      stored (snd (processQueue e ch w)) = stored (snd (processWrite e ch w1)) \<and>
      (after ch = None \<longrightarrow>
         processQueue e ch w = (Inr (), w1\<lparr>trace := trace w1 @ [Event CompleteEvent]\<rparr>)) \<and>
      (\<forall>b payload. before ch = Some b \<and> after ch = Some payload \<and> delivery payload = None \<longrightarrow>
         processQueue e ch w = (Inr (), w\<lparr>trace := trace w @ [Event CompleteEvent]\<rparr>)) \<and>
      (\<forall>b payload d. before ch = Some b \<and> after ch = Some payload \<and> delivery payload = Some d \<and>
          (state d = JStr ''PENDING'' \<or> state d = JStr ''RETRY'') \<longrightarrow>
         fst (processWrite e ch w1) = Inr ())"
proof -
  define w1 where "w1 = (if before ch = None then recordEvent StartEvent w else w)"
  obtain r w2 where pw: "processWrite e ch w1 = (r, w2)" by (cases "processWrite e ch w1")
  obtain new where new: "trace w2 = trace w1 @ new"
    "Event StartEvent \<notin> set new" "Event CompleteEvent \<notin> set new"
    using processWrite_inner [of e ch w1] pw by auto
  have pq: "processQueue e ch w =
      (case r of Inl err \<Rightarrow> (Inr (), recordEvent (ErrorEvent (JStr (unhandled err))) w2)
               | Inr u \<Rightarrow> (Inr (), recordEvent CompleteEvent w2))"
    using pw by (simp add: processQueue_def w1_def Let_def split: sum.splits)
  have A: "\<exists>new. trace (snd (processQueue e ch w)) = trace w1 @ new \<and>
         (case fst (processWrite e ch w1) of
            Inl err \<Rightarrow>
              last new = Event (ErrorEvent (JStr (''Unhandled error occurred during processing: ''
                                                @ err_message err @ [CHR 0x22]))) \<and>
              Event CompleteEvent \<notin> set new
          | Inr u \<Rightarrow>
              last new = Event CompleteEvent \<and> Event CompleteEvent \<notin> set (butlast new))"
  proof (cases r)
    case (Inl err)
    then show ?thesis using pq pw new
      by (intro exI [of _ "new @ [Event (ErrorEvent (JStr (unhandled err)))]"])
         (simp add: step_simps unhandled_def)
  next
    case (Inr u)
    then show ?thesis using pq pw new
      by (intro exI [of _ "new @ [Event CompleteEvent]"]) (simp add: step_simps)
  qed
  have B: "stored (snd (processQueue e ch w)) = stored (snd (processWrite e ch w1))"
    using pq pw by (simp add: step_simps split: sum.splits)
  have C: "after ch = None \<longrightarrow>
         processQueue e ch w = (Inr (), w1\<lparr>trace := trace w1 @ [Event CompleteEvent]\<rparr>)"
    by (simp add: processQueue_def processWrite_def w1_def recordEvent_def Let_def)
  have D: "\<forall>b payload. before ch = Some b \<and> after ch = Some payload \<and> delivery payload = None \<longrightarrow>
         processQueue e ch w = (Inr (), w\<lparr>trace := trace w @ [Event CompleteEvent]\<rparr>)"
    by (simp add: processQueue_def processWrite_def recordEvent_def Let_def)
  have E: "\<forall>b payload d. before ch = Some b \<and> after ch = Some payload \<and> delivery payload = Some d \<and>
          (state d = JStr ''PENDING'' \<or> state d = JStr ''RETRY'') \<longrightarrow>
         fst (processWrite e ch w1) = Inr ()"
    using attempt_returns by blast
  have F: "fst (processQueue e ch w) = Inr ()"
    using pq by (simp split: sum.splits)
  show ?thesis unfolding Let_def w1_def [symmetric] using A B C D E F by blast
qed


theorem processQueue_outcome_witness:
  "processQueue env_plain \<lparr>before = Some mail_doc, after = None\<rparr> (store_of mail_doc)
     = (Inr (), \<lparr>stored = mail_doc, trace = [Event CompleteEvent]\<rparr>) \<and>
   processQueue env_plain (update_of mail_doc) (store_of mail_doc)
     = (Inr (), \<lparr>stored = mail_doc, trace = [Event CompleteEvent]\<rparr>) \<and>
   fst (processWrite env_failing (update_of (in_state ''RETRY'' None))
          (store_of (in_state ''RETRY'' None))) = Inr ()"
proof -
  note deleted = processQueue_outcome
      [of "\<lparr>before = Some mail_doc, after = None\<rparr>" "store_of mail_doc" env_plain, unfolded Let_def]
  note missing = processQueue_outcome
      [of "update_of mail_doc" "store_of mail_doc" env_plain, unfolded Let_def]
  note failing = processQueue_outcome
      [of "update_of (in_state ''RETRY'' None)" "store_of (in_state ''RETRY'' None)" env_failing,
       unfolded Let_def]
  have "after \<lparr>before = Some mail_doc, after = None\<rparr> = None" by simp
  with deleted have "processQueue env_plain \<lparr>before = Some mail_doc, after = None\<rparr> (store_of mail_doc)
     = (Inr (), (if before \<lparr>before = Some mail_doc, after = None\<rparr> = None
        then recordEvent StartEvent (store_of mail_doc) else store_of mail_doc)
       \<lparr>trace := trace (if before \<lparr>before = Some mail_doc, after = None\<rparr> = None
        then recordEvent StartEvent (store_of mail_doc) else store_of mail_doc) @ [Event CompleteEvent]\<rparr>)"
    by blast
  then have 1: "processQueue env_plain \<lparr>before = Some mail_doc, after = None\<rparr> (store_of mail_doc)
     = (Inr (), \<lparr>stored = mail_doc, trace = [Event CompleteEvent]\<rparr>)"
    by (simp add: store_of_def)
  have "before (update_of mail_doc) = Some mail_doc \<and> after (update_of mail_doc) = Some mail_doc
      \<and> delivery mail_doc = None"
    by (simp add: update_of_def mail_doc_def)
  with missing have "processQueue env_plain (update_of mail_doc) (store_of mail_doc)
     = (Inr (), (store_of mail_doc)\<lparr>trace := trace (store_of mail_doc) @ [Event CompleteEvent]\<rparr>)"
    by blast
  then have 2: "processQueue env_plain (update_of mail_doc) (store_of mail_doc)
     = (Inr (), \<lparr>stored = mail_doc, trace = [Event CompleteEvent]\<rparr>)"
    by (simp add: store_of_def)
  let ?doc = "in_state ''RETRY'' None"
  have "before (update_of ?doc) = Some ?doc \<and> after (update_of ?doc) = Some ?doc
      \<and> delivery ?doc = Some (the_delivery ?doc) \<and>
      (state (the_delivery ?doc) = JStr ''PENDING'' \<or> state (the_delivery ?doc) = JStr ''RETRY'')"
    by (simp add: sample_defs the_delivery_def)
  with failing have "fst (processWrite env_failing (update_of ?doc)
      (if before (update_of ?doc) = None then recordEvent StartEvent (store_of ?doc) else store_of ?doc))
      = Inr ()"
    by blast
  then have 3: "fst (processWrite env_failing (update_of ?doc) (store_of ?doc)) = Inr ()"
    by (simp add: update_of_def)
  from 1 2 3 show ?thesis by blast
qed

text \<open>
  The claim as it was stated fails on three counts. The handler records the completion
  event for a deleted document and for a document without a delivery field; it records
  none after the unhandled error of a \<^verbatim>\<open>PROCESSING\<close> document without a lease; and a
  failure of the transport is committed by \<^verbatim>\<open>deliver\<close> as the state \<^verbatim>\<open>ERROR\<close>, with no
  error event, after which the completion event is recorded.
\<close>

theorem processQueue_completion_counterexample:
  "trace (snd (processQueue env_plain \<lparr>before = Some mail_doc, after = None\<rparr>
                 (store_of mail_doc)))
     = [Event CompleteEvent] \<and>
   trace (snd (processQueue env_plain (update_of mail_doc) (store_of mail_doc)))
     = [Event CompleteEvent] \<and>
   isl (fst (processWrite env_plain (update_of (in_state ''PROCESSING'' None))
               (store_of (in_state ''PROCESSING'' None)))) \<and>
   Event CompleteEvent \<notin>
     set (trace (snd (processQueue env_plain (update_of (in_state ''PROCESSING'' None))
                        (store_of (in_state ''PROCESSING'' None))))) \<and>
   trace (snd (processQueue env_failing (update_of (in_state ''RETRY'' None))
                 (store_of (in_state ''RETRY'' None))))
     = [Event RetryEvent,
        Commit [Delivery_state (JStr ''PROCESSING''), Delivery_leaseExpireTime (Some 1060000)],
        Send [(''subject'', JStr ''hi''), (''text'', JStr ''hello''),
              (''from'', JStr ''noreply@x.com''), (''replyTo'', JUndefined),
              (''to'', JArr [JStr ''a@x.com'']), (''cc'', JArr []), (''bcc'', JArr []),
              (''headers'', JObj [])],
        Commit [Delivery_attempts_increment 1, Delivery_endTime (Some 1000500),
                Delivery_error (JStr ''Error: connect ECONNREFUSED''),
                Delivery_leaseExpireTime None, Delivery_state (JStr ''ERROR'')],
        Event CompleteEvent]"
proof -
  have "attemptDelivery env_failing (in_state ''RETRY'' None) =
     (Inl (Error ''connect ECONNREFUSED''),
      [Send [(''subject'', JStr ''hi''), (''text'', JStr ''hello''),
              (''from'', JStr ''noreply@x.com''), (''replyTo'', JUndefined),
              (''to'', JArr [JStr ''a@x.com'']), (''cc'', JArr []), (''bcc'', JArr []),
              (''headers'', JObj [])]])"
    unfolding attemptDelivery_def preparePayload_failing
    by (simp add: mailOf_def Object_assign_def assign1_def js_or_def sample_defs)
  then have "trace (snd (processQueue env_failing (update_of (in_state ''RETRY'' None))
                 (store_of (in_state ''RETRY'' None))))
     = [Event RetryEvent,
        Commit [Delivery_state (JStr ''PROCESSING''), Delivery_leaseExpireTime (Some 1060000)],
        Send [(''subject'', JStr ''hi''), (''text'', JStr ''hello''),
              (''from'', JStr ''noreply@x.com''), (''replyTo'', JUndefined),
              (''to'', JArr [JStr ''a@x.com'']), (''cc'', JArr []), (''bcc'', JArr []),
              (''headers'', JObj [])],
        Commit [Delivery_attempts_increment 1, Delivery_endTime (Some 1000500),
                Delivery_error (JStr ''Error: connect ECONNREFUSED''),
                Delivery_leaseExpireTime None, Delivery_state (JStr ''ERROR'')],
        Event CompleteEvent]"
    unfolding processQueue_def processWrite_def case_RETRY_def deliver_def
    by (simp add: step_simps err_toString_def update_of_def store_of_def in_state_def
        mail_doc_def) (simp add: sample_defs)
  moreover have "trace (snd (processQueue env_plain \<lparr>before = Some mail_doc, after = None\<rparr>
                 (store_of mail_doc)))
     = [Event CompleteEvent] \<and>
   trace (snd (processQueue env_plain (update_of mail_doc) (store_of mail_doc)))
     = [Event CompleteEvent] \<and>
   isl (fst (processWrite env_plain (update_of (in_state ''PROCESSING'' None))
               (store_of (in_state ''PROCESSING'' None)))) \<and>
   Event CompleteEvent \<notin>
     set (trace (snd (processQueue env_plain (update_of (in_state ''PROCESSING'' None))
                        (store_of (in_state ''PROCESSING'' None)))))"
    by (simp add: processQueue_def processWrite_def case_PROCESSING_def unhandled_def
        recordEvent_def sample_defs)
  ultimately show ?thesis by blast
qed

subsection \<open>The state machine: a lease that has expired\<close>

text \<open>
  Claim C4, as amended. On a write to an existing document whose delivery state is \<^verbatim>\<open>PROCESSING\<close> and
  whose lease expired before \<^verbatim>\<open>Date.now()\<close>, \<^verbatim>\<open>processWrite\<close> records the processing
  event and an error event, then commits one update that sets the state to \<^verbatim>\<open>ERROR\<close> and
  the error to \<^verbatim>\<open>Message processing lease expired.\<close>; the count of attempts is not
  changed and nothing is given to the transport.
\<close>

theorem processWrite_lease_expired:
  assumes "before ch = Some b" and "after ch = Some payload"
    and "delivery payload = Some d" and "state d = JStr ''PROCESSING''"
    and "leaseExpireTime d = Some lease" and "lease < now e"
  shows "fst (processWrite e ch w) = Inr () \<and>
     trace (snd (processWrite e ch w)) =
       trace w @ [Event ProcessingEvent,
                  Event (ErrorEvent (JStr ''Message processing lease expired.'')),
                  Commit [Delivery_state (JStr ''ERROR''),
                          Top_error (JStr ''Message processing lease expired.''),
                          Delivery_error (JStr ''Message processing lease expired.'')]] \<and>
     state (the_delivery (stored (snd (processWrite e ch w)))) = JStr ''ERROR'' \<and>
     error (the_delivery (stored (snd (processWrite e ch w)))) = JStr ''Message processing lease expired.'' \<and>
     attempts (the_delivery (stored (snd (processWrite e ch w)))) = attempts (the_delivery (stored w))"
  using assms
  by (simp add: processWrite_def case_PROCESSING_def step_simps apply_update_def
      the_delivery_def lease_expired_def)

theorem processWrite_lease_expired_witness:
  "state (the_delivery (stored (snd (processWrite env_plain
       (update_of (in_state ''PROCESSING'' (Some 880000)))
       (store_of (in_state ''PROCESSING'' (Some 880000))))))) = JStr ''ERROR'' \<and>
   attempts (the_delivery (stored (snd (processWrite env_plain
       (update_of (in_state ''PROCESSING'' (Some 880000)))
       (store_of (in_state ''PROCESSING'' (Some 880000))))))) = JNum 0"
proof -
  let ?doc = "in_state ''PROCESSING'' (Some 880000)"
  have "before (update_of ?doc) = Some ?doc" and "after (update_of ?doc) = Some ?doc"
    and "delivery ?doc = Some (the_delivery ?doc)"
    and "state (the_delivery ?doc) = JStr ''PROCESSING''"
    and "leaseExpireTime (the_delivery ?doc) = Some 880000"
    and "(880000::int) < now env_plain"
    by (simp_all add: sample_defs the_delivery_def)
  from processWrite_lease_expired [OF this, of "store_of ?doc"]
  show ?thesis by (simp add: sample_defs the_delivery_def)
qed

text \<open>
  The claim as it was stated fails for the write that creates a document in state
  \<^verbatim>\<open>PROCESSING\<close> with an expired lease: \<^verbatim>\<open>processCreate\<close> commits the state \<^verbatim>\<open>PENDING\<close>,
  not \<^verbatim>\<open>ERROR\<close>, and no error is recorded.
\<close>

theorem processWrite_lease_expired_counterexample:
  "state (the_delivery (in_state ''PROCESSING'' (Some 880000))) = JStr ''PROCESSING'' \<and>
   leaseExpireTime (the_delivery (in_state ''PROCESSING'' (Some 880000))) = Some 880000 \<and>
   now env_plain = 1000000 \<and>
   processWrite env_plain (creation_of (in_state ''PROCESSING'' (Some 880000)))
       (store_of (in_state ''PROCESSING'' (Some 880000))) =
     (Inr (), \<lparr>stored = mail_doc\<lparr>delivery := Some pending_block\<rparr>,
               trace = [Commit [Delivery_map pending_block]]\<rparr>)"
  by (simp add: creation_defs sample_defs)

subsection \<open>The state machine: starting an attempt\<close>

text \<open>
  Claim C5, as amended. On a write to an existing document whose delivery state is \<^verbatim>\<open>PENDING\<close> or
  \<^verbatim>\<open>RETRY\<close>, \<^verbatim>\<open>processWrite\<close> records the retry event, preceded by the pending event in
  the \<^verbatim>\<open>PENDING\<close> case, then commits the state \<^verbatim>\<open>PROCESSING\<close> with a lease that expires
  60000 milliseconds after \<^verbatim>\<open>Date.now()\<close>, and only then runs \<^verbatim>\<open>deliver\<close>: the message
  given to the transport, if any, and the commit of the outcome follow the commit of the
  lease in the trace. Both cases run the same code from the retry event on.
\<close>

theorem processWrite_attempt:
  assumes "before ch = Some b" and "after ch = Some payload" and "delivery payload = Some d"
    and "state d = JStr ''PENDING'' \<or> state d = JStr ''RETRY''"
  shows
    "let events = (if state d = JStr ''PENDING'' then [Event PendingEvent, Event RetryEvent]
                   else [Event RetryEvent]);
         lease = [Delivery_state (JStr ''PROCESSING''),
                  Delivery_leaseExpireTime (Some (now e + 60000))];
         w1 = w\<lparr>stored := apply_update lease (stored w),
                 trace := trace w @ events @ [Commit lease]\<rparr>
     in processWrite e ch w = deliver e payload w1 \<and>
        state (the_delivery (stored w1)) = JStr ''PROCESSING'' \<and>
        leaseExpireTime (the_delivery (stored w1)) = Some (now e + 60000) \<and>
        (\<exists>upd. trace (snd (processWrite e ch w)) =
                 trace w @ events @ [Commit lease] @ snd (attemptDelivery e payload) @ [Commit upd])"
proof -
  define lease where "lease = [Delivery_state (JStr ''PROCESSING''),
                  Delivery_leaseExpireTime (Some (now e + 60000))]"
  define events where "events = (if state d = JStr ''PENDING'' then [Event PendingEvent, Event RetryEvent]
                   else [Event RetryEvent])"
  define w1 where "w1 = w\<lparr>stored := apply_update lease (stored w),
                 trace := trace w @ events @ [Commit lease]\<rparr>"
  have run: "processWrite e ch w = deliver e payload w1"
    using assms
    by (auto simp: processWrite_def case_RETRY_def runTransaction_def recordEvent_def
        w1_def events_def lease_def)
  have st: "state (the_delivery (stored w1)) = JStr ''PROCESSING''"
    "leaseExpireTime (the_delivery (stored w1)) = Some (now e + 60000)"
    by (simp_all add: w1_def lease_def apply_update_def the_delivery_def)
  have "\<exists>upd. trace (snd (processWrite e ch w)) =
                 trace w @ events @ [Commit lease] @ snd (attemptDelivery e payload) @ [Commit upd]"
    using deliver_trace [of e payload w1] by (auto simp: run w1_def)
  with run st show ?thesis
    unfolding Let_def lease_def [symmetric] events_def [symmetric] w1_def [symmetric] by blast
qed

theorem processWrite_attempt_witness:
  "processWrite env_plain (update_of (in_state ''PENDING'' None)) (store_of (in_state ''PENDING'' None))
     = deliver env_plain (in_state ''PENDING'' None)
         \<lparr>stored = in_state ''PROCESSING'' (Some 1060000),
          trace = [Event PendingEvent, Event RetryEvent,
                   Commit [Delivery_state (JStr ''PROCESSING''),
                           Delivery_leaseExpireTime (Some 1060000)]]\<rparr>"
proof -
  let ?doc = "in_state ''PENDING'' None"
  have "before (update_of ?doc) = Some ?doc" and "after (update_of ?doc) = Some ?doc"
    and "delivery ?doc = Some (the_delivery ?doc)"
    and "state (the_delivery ?doc) = JStr ''PENDING'' \<or> state (the_delivery ?doc) = JStr ''RETRY''"
    by (simp_all add: sample_defs the_delivery_def)
  from processWrite_attempt [OF this, of env_plain "store_of ?doc", unfolded Let_def]
  have "processWrite env_plain (update_of ?doc) (store_of ?doc) =
     deliver env_plain ?doc
       ((store_of ?doc)\<lparr>stored := apply_update [Delivery_state (JStr ''PROCESSING''),
                  Delivery_leaseExpireTime (Some (now env_plain + 60000))] (stored (store_of ?doc)),
                 trace := trace (store_of ?doc) @
                   (if state (the_delivery ?doc) = JStr ''PENDING''
                    then [Event PendingEvent, Event RetryEvent] else [Event RetryEvent]) @
                   [Commit [Delivery_state (JStr ''PROCESSING''),
                  Delivery_leaseExpireTime (Some (now env_plain + 60000))]]\<rparr>)"
    by blast
  then show ?thesis
    by (simp add: sample_defs the_delivery_def apply_update_def)
qed

text \<open>
  The claim as it was stated fails for the write that creates a document in state
  \<^verbatim>\<open>RETRY\<close>: the one commit is that of \<^verbatim>\<open>processCreate\<close>, which sets the state \<^verbatim>\<open>PENDING\<close>
  without a lease, and no delivery is attempted in this invocation.
\<close>

theorem processWrite_attempt_counterexample:
  "state (the_delivery (in_state ''RETRY'' None)) = JStr ''RETRY'' \<and>
   processWrite env_plain (creation_of (in_state ''RETRY'' None))
       (store_of (in_state ''RETRY'' None)) =
     (Inr (), \<lparr>stored = mail_doc\<lparr>delivery := Some pending_block\<rparr>,
               trace = [Commit [Delivery_map pending_block]]\<rparr>)"
  by (simp add: creation_defs sample_defs)

subsection \<open>The template merge\<close>

text \<open>
  Claim C6. The claim reads: in the template merge of \<^verbatim>\<open>preparePayload\<close> the final
  attachments are those of the template when the template produced attachments,
  otherwise those supplied in the message, and the empty sequence when neither supplies
  any (\<open>spec_attachments\<close>). The code decides by the truthiness of the rendered field
  (line 107), and every array is truthy, the empty one included: a template that renders
  \<^verbatim>\<open>attachments: []\<close> replaces the attachments \<open>[A]\<close> of the message by the empty
  array, where the claim keeps \<open>[A]\<close> (the counterexample below, on the template
  \<^verbatim>\<open>bare\<close>).

  As amended: when the templates collection is configured, the payload has a template
  with a name and the template renders, the merge returns, the message of whatever
  \<^verbatim>\<open>preparePayload\<close> returns is the merged message, and \<^verbatim>\<open>preparePayload\<close> does return
  when the recipient fields are well formed and the users collection answers. The
  attachments of the merged message are the rendered attachments of the template when
  that field is truthy (any array, the empty one included), otherwise the attachments
  supplied in the message when that field is truthy, and the empty array otherwise. In
  particular an array rendered by the template replaces an array \<open>[A]\<close> of the message, a
  template that renders no attachments field leaves the array \<open>[A]\<close> of the message in
  place, and with no attachments on either side the result is the empty array. Unless
  the template renders the empty array, this is what the claim says.
\<close>

theorem preparePayload_attachments:
  assumes "templates e = Some render" and "template payload = Some t"
    and "truthy (obj_get t ''name'')"
    and "render (obj_get t ''name'') (obj_get t ''data'') = Inr templateRender"
  shows
    "let rendered = obj_get templateRender ''attachments'';
         supplied = obj_get (case message payload of Some m \<Rightarrow> m | None \<Rightarrow> []) ''attachments''
     in \<exists>merged.
          mergeTemplate e payload = Inr (payload\<lparr>message := Some merged\<rparr>) \<and>
          (\<forall>p. preparePayload e payload = Inr p \<longrightarrow> message p = Some merged) \<and>
          (address_field (to payload) \<and> address_field (cc payload) \<and> address_field (bcc payload) \<and>
           uid_field (toUids payload) \<and> uid_field (ccUids payload) \<and> uid_field (bccUids payload) \<and>
           (truthy (toUids payload) \<or> truthy (ccUids payload) \<or> truthy (bccUids payload) \<longrightarrow>
              truthy (usersCollection e) \<and> getAll e (uidKeys payload) = Inr documents) \<longrightarrow>
           (\<exists>p. preparePayload e payload = Inr p \<and> message p = Some merged)) \<and>
          obj_get merged ''attachments'' =
            (if truthy rendered then rendered
             else if truthy supplied then supplied
             else JArr []) \<and>
          (\<forall>bs. rendered = JArr bs \<longrightarrow> obj_get merged ''attachments'' = JArr bs) \<and>
          (\<forall>as. \<not> truthy rendered \<and> supplied = JArr as \<longrightarrow>
                  obj_get merged ''attachments'' = JArr as) \<and>
          (\<not> truthy rendered \<and> \<not> truthy supplied \<longrightarrow> obj_get merged ''attachments'' = JArr []) \<and>
          (attachments_field rendered \<and> attachments_field supplied \<and> rendered \<noteq> JArr [] \<longrightarrow>
             obj_get merged ''attachments'' = spec_attachments rendered supplied)"
proof -
  define rendered where "rendered = obj_get templateRender ''attachments''"
  define supplied where
    "supplied = obj_get (case message payload of Some m \<Rightarrow> m | None \<Rightarrow> []) ''attachments''"
  define merged where
    "merged = Object_assign (case message payload of Some m \<Rightarrow> m | None \<Rightarrow> [])
       [templateRender,
        [(''attachments'', js_or (if truthy rendered then rendered else supplied) (JArr []))]]"
  have m: "mergeTemplate e payload = Inr (payload\<lparr>message := Some merged\<rparr>)"
    unfolding merged_def rendered_def supplied_def by (rule mergeTemplate_returns [OF assms])
  have final: "message p = Some merged" if "preparePayload e payload = Inr p" for p
    using preparePayload_message [OF that] m by simp
  have produced: "\<exists>p. preparePayload e payload = Inr p \<and> message p = Some merged"
    if "address_field (to payload)" "address_field (cc payload)" "address_field (bcc payload)"
      "uid_field (toUids payload)" "uid_field (ccUids payload)" "uid_field (bccUids payload)"
      "truthy (toUids payload) \<or> truthy (ccUids payload) \<or> truthy (bccUids payload) \<longrightarrow>
         truthy (usersCollection e) \<and> getAll e (uidKeys payload) = Inr documents"
    using preparePayload_returns [OF m that] by simp
  have a: "obj_get merged ''attachments'' =
      (if truthy rendered then rendered else if truthy supplied then supplied else JArr [])"
    by (simp add: merged_def obj_get_assigned_last js_or_def)
  have s: "obj_get merged ''attachments'' = spec_attachments rendered supplied"
    if "attachments_field rendered" "attachments_field supplied" "rendered \<noteq> JArr []"
    using spec_attachments_truthy [OF that] a by simp
  have "\<exists>merged.
          mergeTemplate e payload = Inr (payload\<lparr>message := Some merged\<rparr>) \<and>
          (\<forall>p. preparePayload e payload = Inr p \<longrightarrow> message p = Some merged) \<and>
          (address_field (to payload) \<and> address_field (cc payload) \<and> address_field (bcc payload) \<and>
           uid_field (toUids payload) \<and> uid_field (ccUids payload) \<and> uid_field (bccUids payload) \<and>
           (truthy (toUids payload) \<or> truthy (ccUids payload) \<or> truthy (bccUids payload) \<longrightarrow>
              truthy (usersCollection e) \<and> getAll e (uidKeys payload) = Inr documents) \<longrightarrow>
           (\<exists>p. preparePayload e payload = Inr p \<and> message p = Some merged)) \<and>
          obj_get merged ''attachments'' =
            (if truthy rendered then rendered
             else if truthy supplied then supplied
             else JArr []) \<and>
          (\<forall>bs. rendered = JArr bs \<longrightarrow> obj_get merged ''attachments'' = JArr bs) \<and>
          (\<forall>as. \<not> truthy rendered \<and> supplied = JArr as \<longrightarrow>
                  obj_get merged ''attachments'' = JArr as) \<and>
          (\<not> truthy rendered \<and> \<not> truthy supplied \<longrightarrow> obj_get merged ''attachments'' = JArr []) \<and>
          (attachments_field rendered \<and> attachments_field supplied \<and> rendered \<noteq> JArr [] \<longrightarrow>
             obj_get merged ''attachments'' = spec_attachments rendered supplied)"
  proof (intro exI [of _ merged] conjI allI impI)
    show "mergeTemplate e payload = Inr (payload\<lparr>message := Some merged\<rparr>)" by (rule m)
  next
    fix p assume "preparePayload e payload = Inr p"
    then show "message p = Some merged" by (rule final)
  next
    assume "address_field (to payload) \<and> address_field (cc payload) \<and> address_field (bcc payload) \<and>
           uid_field (toUids payload) \<and> uid_field (ccUids payload) \<and> uid_field (bccUids payload) \<and>
           (truthy (toUids payload) \<or> truthy (ccUids payload) \<or> truthy (bccUids payload) \<longrightarrow>
              truthy (usersCollection e) \<and> getAll e (uidKeys payload) = Inr documents)"
    then show "\<exists>p. preparePayload e payload = Inr p \<and> message p = Some merged"
      using produced by blast
  next
    show "obj_get merged ''attachments'' =
      (if truthy rendered then rendered else if truthy supplied then supplied else JArr [])"
      by (rule a)
  next
    fix bs assume "rendered = JArr bs"
    then show "obj_get merged ''attachments'' = JArr bs" using a by simp
  next
    fix as assume "\<not> truthy rendered \<and> supplied = JArr as"
    then show "obj_get merged ''attachments'' = JArr as" using a by simp
  next
    assume "\<not> truthy rendered \<and> \<not> truthy supplied"
    then show "obj_get merged ''attachments'' = JArr []" using a by simp
  next
    assume "attachments_field rendered \<and> attachments_field supplied \<and> rendered \<noteq> JArr []"
    then show "obj_get merged ''attachments'' = spec_attachments rendered supplied"
      using s by blast
  qed
  then show ?thesis unfolding Let_def rendered_def supplied_def .
qed

theorem preparePayload_attachments_witness:
  "(\<exists>p merged. preparePayload env_templates (attachment_doc ''welcome'') = Inr p \<and>
      message p = Some merged \<and> obj_get merged ''attachments'' = JArr [JStr ''B'']) \<and>
   (\<exists>p merged. preparePayload env_templates (attachment_doc ''plain'') = Inr p \<and>
      message p = Some merged \<and> obj_get merged ''attachments'' = JArr [JStr ''A'']) \<and>
   (\<exists>p merged. preparePayload env_templates (template_doc ''plain'') = Inr p \<and>
      message p = Some merged \<and> obj_get merged ''attachments'' = JArr [])"
proof -
  have t: "templates env_templates = Some render_sample"
    by (simp add: sample_defs)
  have nw: "truthy (obj_get [(''name'', JStr ''welcome'')] ''name'')"
    and np: "truthy (obj_get [(''name'', JStr ''plain'')] ''name'')"
    by (simp_all add: obj_get_def)
  have rw: "render_sample (obj_get [(''name'', JStr ''welcome'')] ''name'')
              (obj_get [(''name'', JStr ''welcome'')] ''data'')
            = Inr [(''subject'', JStr ''Welcome''), (''attachments'', JArr [JStr ''B''])]"
    and rp: "render_sample (obj_get [(''name'', JStr ''plain'')] ''name'')
              (obj_get [(''name'', JStr ''plain'')] ''data'')
            = Inr [(''subject'', JStr ''Plain'')]"
    by (simp_all add: render_sample_def obj_get_def)
  have fields: "address_field (to d) \<and> address_field (cc d) \<and> address_field (bcc d) \<and>
      uid_field (toUids d) \<and> uid_field (ccUids d) \<and> uid_field (bccUids d) \<and>
      (truthy (toUids d) \<or> truthy (ccUids d) \<or> truthy (bccUids d) \<longrightarrow>
         truthy (usersCollection env_templates) \<and> getAll env_templates (uidKeys d) = Inr [])"
    if "d = attachment_doc name \<or> d = template_doc name" for d name
    using that by (auto simp: attachment_doc_def template_doc_def mail_doc_def sample_fields)
  have 1: "\<exists>p merged. preparePayload env_templates (attachment_doc ''welcome'') = Inr p \<and>
      message p = Some merged \<and> obj_get merged ''attachments'' = JArr [JStr ''B'']"
  proof -
    have d: "template (attachment_doc ''welcome'') = Some [(''name'', JStr ''welcome'')]"
      by (simp add: attachment_doc_def)
    from preparePayload_attachments [OF t d nw rw, where documents = "[]", unfolded Let_def]
    obtain merged where
      pi: "address_field (to (attachment_doc ''welcome'')) \<and>
           address_field (cc (attachment_doc ''welcome'')) \<and>
           address_field (bcc (attachment_doc ''welcome'')) \<and>
           uid_field (toUids (attachment_doc ''welcome'')) \<and>
           uid_field (ccUids (attachment_doc ''welcome'')) \<and>
           uid_field (bccUids (attachment_doc ''welcome'')) \<and>
           (truthy (toUids (attachment_doc ''welcome'')) \<or>
            truthy (ccUids (attachment_doc ''welcome'')) \<or>
            truthy (bccUids (attachment_doc ''welcome'')) \<longrightarrow>
              truthy (usersCollection env_templates) \<and>
              getAll env_templates (uidKeys (attachment_doc ''welcome'')) = Inr []) \<longrightarrow>
           (\<exists>p. preparePayload env_templates (attachment_doc ''welcome'') = Inr p \<and>
                message p = Some merged)"
      and at: "\<forall>bs. obj_get [(''subject'', JStr ''Welcome''), (''attachments'', JArr [JStr ''B''])]
                 ''attachments'' = JArr bs \<longrightarrow> obj_get merged ''attachments'' = JArr bs"
      by blast
    from pi fields [of "attachment_doc ''welcome''" "''welcome''"]
    obtain p where "preparePayload env_templates (attachment_doc ''welcome'') = Inr p"
      "message p = Some merged" by blast
    moreover from at have "obj_get merged ''attachments'' = JArr [JStr ''B'']"
      by (simp add: obj_get_def)
    ultimately show ?thesis by blast
  qed
  have 2: "\<exists>p merged. preparePayload env_templates (attachment_doc ''plain'') = Inr p \<and>
      message p = Some merged \<and> obj_get merged ''attachments'' = JArr [JStr ''A'']"
  proof -
    have d: "template (attachment_doc ''plain'') = Some [(''name'', JStr ''plain'')]"
      by (simp add: attachment_doc_def)
    from preparePayload_attachments [OF t d np rp, where documents = "[]", unfolded Let_def]
    obtain merged where
      pi: "address_field (to (attachment_doc ''plain'')) \<and>
           address_field (cc (attachment_doc ''plain'')) \<and>
           address_field (bcc (attachment_doc ''plain'')) \<and>
           uid_field (toUids (attachment_doc ''plain'')) \<and>
           uid_field (ccUids (attachment_doc ''plain'')) \<and>
           uid_field (bccUids (attachment_doc ''plain'')) \<and>
           (truthy (toUids (attachment_doc ''plain'')) \<or>
            truthy (ccUids (attachment_doc ''plain'')) \<or>
            truthy (bccUids (attachment_doc ''plain'')) \<longrightarrow>
              truthy (usersCollection env_templates) \<and>
              getAll env_templates (uidKeys (attachment_doc ''plain'')) = Inr []) \<longrightarrow>
           (\<exists>p. preparePayload env_templates (attachment_doc ''plain'') = Inr p \<and>
                message p = Some merged)"
      and at: "\<forall>as. \<not> truthy (obj_get [(''subject'', JStr ''Plain'')] ''attachments'') \<and>
               obj_get (case message (attachment_doc ''plain'') of Some m \<Rightarrow> m | None \<Rightarrow> [])
                 ''attachments'' = JArr as \<longrightarrow> obj_get merged ''attachments'' = JArr as"
      by blast
    from pi fields [of "attachment_doc ''plain''" "''plain''"]
    obtain p where "preparePayload env_templates (attachment_doc ''plain'') = Inr p"
      "message p = Some merged" by blast
    moreover from at have "obj_get merged ''attachments'' = JArr [JStr ''A'']"
      by (simp add: obj_get_def attachment_doc_def)
    ultimately show ?thesis by blast
  qed
  have 3: "\<exists>p merged. preparePayload env_templates (template_doc ''plain'') = Inr p \<and>
      message p = Some merged \<and> obj_get merged ''attachments'' = JArr []"
  proof -
    have d: "template (template_doc ''plain'') = Some [(''name'', JStr ''plain'')]"
      by (simp add: template_doc_def)
    from preparePayload_attachments [OF t d np rp, where documents = "[]", unfolded Let_def]
    obtain merged where
      pi: "address_field (to (template_doc ''plain'')) \<and>
           address_field (cc (template_doc ''plain'')) \<and>
           address_field (bcc (template_doc ''plain'')) \<and>
           uid_field (toUids (template_doc ''plain'')) \<and>
           uid_field (ccUids (template_doc ''plain'')) \<and>
           uid_field (bccUids (template_doc ''plain'')) \<and>
           (truthy (toUids (template_doc ''plain'')) \<or>
            truthy (ccUids (template_doc ''plain'')) \<or>
            truthy (bccUids (template_doc ''plain'')) \<longrightarrow>
              truthy (usersCollection env_templates) \<and>
              getAll env_templates (uidKeys (template_doc ''plain'')) = Inr []) \<longrightarrow>
           (\<exists>p. preparePayload env_templates (template_doc ''plain'') = Inr p \<and>
                message p = Some merged)"
      and at: "\<not> truthy (obj_get [(''subject'', JStr ''Plain'')] ''attachments'') \<and>
               \<not> truthy (obj_get (case message (template_doc ''plain'') of Some m \<Rightarrow> m | None \<Rightarrow> [])
                 ''attachments'') \<longrightarrow> obj_get merged ''attachments'' = JArr []"
      by blast
    from pi fields [of "template_doc ''plain''" "''plain''"]
    obtain p where "preparePayload env_templates (template_doc ''plain'') = Inr p"
      "message p = Some merged" by blast
    moreover from at have "obj_get merged ''attachments'' = JArr []"
      by (simp add: obj_get_def template_doc_def mail_doc_def)
    ultimately show ?thesis by blast
  qed
  from 1 2 3 show ?thesis by blast
qed

theorem preparePayload_attachments_counterexample:
  "render_sample (JStr ''bare'') JUndefined =
     Inr [(''subject'', JStr ''Bare''), (''attachments'', JArr [])] \<and>
   message (attachment_doc ''bare'') =
     Some [(''subject'', JStr ''hi''), (''attachments'', JArr [JStr ''A''])] \<and>
   preparePayload env_templates (attachment_doc ''bare'') =
     Inr ((attachment_doc ''bare'')
            \<lparr>message := Some [(''subject'', JStr ''Bare''), (''attachments'', JArr [])],
             to := JArr [JStr ''a@x.com''], cc := JArr [], bcc := JArr []\<rparr>) \<and>
   spec_attachments (JArr []) (JArr [JStr ''A'']) = JArr [JStr ''A'']"
  by (simp add: preparePayload_def and_then_def mergeTemplate_def literalAddresses_def
      attachment_doc_def render_sample_def sample_defs Let_def obj_get_def js_or_def
      Object_assign_def assign1_def spec_attachments_def supplies_def)

subsection \<open>The recipient lists\<close>



subsection \<open>A template without a name\<close>

text \<open>
  Claim C8, as amended. When a templates collection is configured and the payload has a
  template whose name is missing (or falsy), \<^verbatim>\<open>preparePayload\<close> fails with the error
  \<^verbatim>\<open>Template object is missing a 'name' parameter.\<close>; \<^verbatim>\<open>deliver\<close> then gives nothing to the
  transport and commits the state \<^verbatim>\<open>ERROR\<close> with that error.
\<close>

theorem template_without_name:
  assumes "templates e = Some render" and "template payload = Some t"
    and "\<not> truthy (obj_get t ''name'')"
  shows
    "preparePayload e payload = Inl (Error ''Template object is missing a 'name' parameter.'') \<and>
     fst (deliver e payload w) = Inr () \<and>
     trace (snd (deliver e payload w)) =
       trace w @
         [Commit [Delivery_attempts_increment 1, Delivery_endTime (Some (serverTimestamp e)),
                  Delivery_error (JStr ''Error: Template object is missing a 'name' parameter.''),
                  Delivery_leaseExpireTime None, Delivery_state (JStr ''ERROR'')]] \<and>
     state (the_delivery (stored (snd (deliver e payload w)))) = JStr ''ERROR'' \<and>
     error (the_delivery (stored (snd (deliver e payload w)))) =
       JStr ''Error: Template object is missing a 'name' parameter.''"
proof -
  have prep: "preparePayload e payload =
      Inl (Error ''Template object is missing a 'name' parameter.'')"
    using assms by (simp add: preparePayload_def and_then_def mergeTemplate_def)
  then have "attemptDelivery e payload =
      (Inl (Error ''Template object is missing a 'name' parameter.''), [])"
    by (simp add: attemptDelivery_def)
  from deliver_Inl [OF this, of w] prep show ?thesis
    by (simp add: step_simps apply_update_def the_delivery_def err_toString_def)
qed

theorem template_without_name_witness:
  "preparePayload env_templates unnamed_template_doc =
     Inl (Error ''Template object is missing a 'name' parameter.'') \<and>
   state (the_delivery (stored (snd (deliver env_templates unnamed_template_doc
     (store_of unnamed_template_doc))))) = JStr ''ERROR''"
proof -
  have "templates env_templates = Some render_sample"
    and "template unnamed_template_doc = Some [(''data'', JObj [])]"
    and "\<not> truthy (obj_get [(''data'', JObj [])] ''name'')"
    by (simp_all add: unnamed_template_doc_def sample_defs obj_get_def)
  from template_without_name [OF this, of "store_of unnamed_template_doc"]
  show ?thesis by blast
qed

text \<open>
  Without a templates collection the template of a payload is not looked at: the claim
  as it was stated fails for the sample document with an unnamed template, which is
  prepared without error, sent, and marked \<^verbatim>\<open>SUCCESS\<close>.
\<close>

theorem template_without_name_counterexample:
  "preparePayload env_plain unnamed_template_doc =
     Inr (unnamed_template_doc\<lparr>to := JArr [JStr ''a@x.com''], cc := JArr [], bcc := JArr []\<rparr>) \<and>
   state (the_delivery (stored (snd (deliver env_plain unnamed_template_doc
     (store_of unnamed_template_doc))))) = JStr ''SUCCESS'' \<and>
   trace (snd (deliver env_plain unnamed_template_doc (store_of unnamed_template_doc))) =
     [Send [(''subject'', JStr ''hi''), (''text'', JStr ''hello''),
            (''from'', JStr ''noreply@x.com''), (''replyTo'', JUndefined),
            (''to'', JArr [JStr ''a@x.com'']), (''cc'', JArr []), (''bcc'', JArr []),
            (''headers'', JObj [])],
      Commit [Delivery_attempts_increment 1, Delivery_endTime (Some 1000500),
              Delivery_error JNull, Delivery_leaseExpireTime None,
              Delivery_state (JStr ''SUCCESS''),
              Delivery_info (JObj [(''messageId'', JStr ''m1''),
                                   (''accepted'', JArr [JStr ''a@x.com'']),
                                   (''rejected'', JArr []), (''pending'', JArr []),
                                   (''response'', JNull)])]]"
  by (simp add: deliver_def attemptDelivery_def preparePayload_def and_then_def
      mergeTemplate_def literalAddresses_def mailOf_def sendInfo_def Object_assign_def
      assign1_def obj_get_def js_or_def runTransaction_def apply_update_def the_delivery_def
      no_delivery_def unnamed_template_doc_def sample_defs)


subsection \<open>The state machine: terminal states\<close>

text \<open>
  Claim C9, as amended. On a write to an existing document whose delivery state is \<^verbatim>\<open>SUCCESS\<close>,
  \<^verbatim>\<open>processWrite\<close> records the success event and then an error event that carries the
  error field of the delivery block (null after a successful delivery); when the state is
  \<^verbatim>\<open>ERROR\<close> it records that error event alone. In both cases it returns normally, commits
  nothing and leaves the stored document as it is.
\<close>

theorem processWrite_terminal:
  assumes "before ch = Some b" and "after ch = Some payload" and "delivery payload = Some d"
  shows "(state d = JStr ''SUCCESS'' \<longrightarrow>
            processWrite e ch w =
              (Inr (), w\<lparr>trace := trace w @ [Event SuccessEvent, Event (ErrorEvent (error d))]\<rparr>)) \<and>
         (state d = JStr ''ERROR'' \<longrightarrow>
            processWrite e ch w =
              (Inr (), w\<lparr>trace := trace w @ [Event (ErrorEvent (error d))]\<rparr>))"
  using assms by (simp add: processWrite_def case_ERROR_def recordEvent_def)

theorem processWrite_terminal_witness:
  "processWrite env_plain (update_of (in_state ''SUCCESS'' None)) (store_of (in_state ''SUCCESS'' None))
     = (Inr (), \<lparr>stored = in_state ''SUCCESS'' None,
                 trace = [Event SuccessEvent, Event (ErrorEvent JNull)]\<rparr>) \<and>
   processWrite env_plain (update_of (in_state ''ERROR'' None)) (store_of (in_state ''ERROR'' None))
     = (Inr (), \<lparr>stored = in_state ''ERROR'' None, trace = [Event (ErrorEvent JNull)]\<rparr>)"
proof -
  have s: "before (update_of (in_state ''SUCCESS'' None)) = Some (in_state ''SUCCESS'' None)"
    "after (update_of (in_state ''SUCCESS'' None)) = Some (in_state ''SUCCESS'' None)"
    "delivery (in_state ''SUCCESS'' None) = Some (the_delivery (in_state ''SUCCESS'' None))"
    by (simp_all add: sample_defs the_delivery_def)
  have f: "before (update_of (in_state ''ERROR'' None)) = Some (in_state ''ERROR'' None)"
    "after (update_of (in_state ''ERROR'' None)) = Some (in_state ''ERROR'' None)"
    "delivery (in_state ''ERROR'' None) = Some (the_delivery (in_state ''ERROR'' None))"
    by (simp_all add: sample_defs the_delivery_def)
  have v: "state (the_delivery (in_state ''SUCCESS'' None)) = JStr ''SUCCESS''"
    "state (the_delivery (in_state ''ERROR'' None)) = JStr ''ERROR''"
    "error (the_delivery (in_state ''SUCCESS'' None)) = JNull"
    "error (the_delivery (in_state ''ERROR'' None)) = JNull"
    by (simp_all add: sample_defs the_delivery_def)
  from processWrite_terminal [OF s, of env_plain "store_of (in_state ''SUCCESS'' None)"]
    processWrite_terminal [OF f, of env_plain "store_of (in_state ''ERROR'' None)"] v
  show ?thesis by (simp add: store_of_def)
qed

text \<open>
  The claim as it was stated fails for the write that creates a document in state
  \<^verbatim>\<open>SUCCESS\<close>, a copy of a delivered document for instance: no event is recorded and
  \<^verbatim>\<open>processCreate\<close> commits the state \<^verbatim>\<open>PENDING\<close>, from which the mail is sent again.
\<close>

theorem processWrite_terminal_counterexample:
  "state (the_delivery (in_state ''SUCCESS'' None)) = JStr ''SUCCESS'' \<and>
   processWrite env_plain (creation_of (in_state ''SUCCESS'' None))
       (store_of (in_state ''SUCCESS'' None)) =
     (Inr (), \<lparr>stored = mail_doc\<lparr>delivery := Some pending_block\<rparr>,
               trace = [Commit [Delivery_map pending_block]]\<rparr>)"
  by (simp add: creation_defs sample_defs)

subsection \<open>The state machine: a missing lease\<close>

text \<open>
  Claim C10, as amended. On a write to an existing document whose delivery state is \<^verbatim>\<open>PROCESSING\<close> and
  whose \<^verbatim>\<open>leaseExpireTime\<close> is null or absent, \<^verbatim>\<open>processWrite\<close> throws a TypeError after
  it has recorded the processing event. \<^verbatim>\<open>processQueue\<close> catches it and records the error
  event of the unhandled error; no update is committed and the stored document is left
  as it is, in state \<^verbatim>\<open>PROCESSING\<close>.
\<close>

theorem processQueue_missing_lease:
  assumes "before ch = Some b" and "after ch = Some payload"
    and "delivery payload = Some d" and "state d = JStr ''PROCESSING''"
    and "leaseExpireTime d = None"
  shows "\<exists>err. err_name err = ''TypeError'' \<and>
           processWrite e ch w = (Inl err, w\<lparr>trace := trace w @ [Event ProcessingEvent]\<rparr>) \<and>
           processQueue e ch w =
             (Inr (),
              w\<lparr>trace := trace w @
                  [Event ProcessingEvent,
                   Event (ErrorEvent (JStr (''Unhandled error occurred during processing: ''
                                            @ err_message err @ [CHR 0x22])))]\<rparr>) \<and>
           stored (snd (processQueue e ch w)) = stored w"
  using assms
  by (intro exI [of _ "TypeError ''Cannot read properties of null (reading toMillis)''"])
     (simp add: processQueue_def processWrite_def case_PROCESSING_def recordEvent_def unhandled_def)

theorem processQueue_missing_lease_witness:
  "stored (snd (processQueue env_plain (update_of (in_state ''PROCESSING'' None))
      (store_of (in_state ''PROCESSING'' None)))) = in_state ''PROCESSING'' None \<and>
   state (the_delivery (stored (snd (processQueue env_plain
      (update_of (in_state ''PROCESSING'' None))
      (store_of (in_state ''PROCESSING'' None)))))) = JStr ''PROCESSING'' \<and>
   length (trace (snd (processQueue env_plain (update_of (in_state ''PROCESSING'' None))
      (store_of (in_state ''PROCESSING'' None))))) = 2"
proof -
  let ?doc = "in_state ''PROCESSING'' None"
  have "before (update_of ?doc) = Some ?doc" and "after (update_of ?doc) = Some ?doc"
    and "delivery ?doc = Some (the_delivery ?doc)"
    and "state (the_delivery ?doc) = JStr ''PROCESSING''"
    and "leaseExpireTime (the_delivery ?doc) = None"
    by (simp_all add: sample_defs the_delivery_def)
  from processQueue_missing_lease [OF this, of env_plain "store_of ?doc"]
  obtain err where
    "processQueue env_plain (update_of ?doc) (store_of ?doc) =
       (Inr (),
        (store_of ?doc)\<lparr>trace := trace (store_of ?doc) @
          [Event ProcessingEvent,
           Event (ErrorEvent (JStr (''Unhandled error occurred during processing: ''
                                    @ err_message err @ [CHR 0x22])))]\<rparr>)"
    by blast
  then show ?thesis by (simp add: sample_defs the_delivery_def)
qed

text \<open>
  The claim as it was stated fails for the write that creates a document in state
  \<^verbatim>\<open>PROCESSING\<close> without a lease: \<^verbatim>\<open>processWrite\<close> does not read the lease and does not
  throw, and \<^verbatim>\<open>processCreate\<close> commits the state \<^verbatim>\<open>PENDING\<close>.
\<close>

theorem processQueue_missing_lease_counterexample:
  "state (the_delivery (in_state ''PROCESSING'' None)) = JStr ''PROCESSING'' \<and>
   leaseExpireTime (the_delivery (in_state ''PROCESSING'' None)) = None \<and>
   processWrite env_plain (creation_of (in_state ''PROCESSING'' None))
       (store_of (in_state ''PROCESSING'' None)) =
     (Inr (), \<lparr>stored = mail_doc\<lparr>delivery := Some pending_block\<rparr>,
               trace = [Commit [Delivery_map pending_block]]\<rparr>)"
  by (simp add: creation_defs sample_defs)

end
